theory Spec2Isabelle
  imports Main
begin

section \<open>The Family Group Report of Gramps (plugins/textreport/familygroup.py)\<close>

text \<open>
  The report walks family records of a genealogy database and emits calls on a
  document backend.  The database records, the document calls and the option
  values are modelled as data; the collaborators that live outside the module
  (translation, date, name and place display) are parameters of every routine.
  Record fields carry a short prefix (\<open>p_\<close>, \<open>f_\<close>, \<open>ev_\<close>) because several
  classes of the source share accessor names such as \<open>get_attribute_list\<close>.
\<close>

subsection \<open>Database records\<close>

type_synonym handle = string

text \<open>Opaque library values: a date object and a styled text are only handed on
  to a display collaborator.\<close>

type_synonym date = string
type_synonym styledtext = string

datatype gender = FEMALE | MALE | UNKNOWN

datatype event_type = BIRTH | DEATH | MARRIAGE | DIVORCE | CUSTOM_EVENT string

datatype event_role = PRIMARY | FAMILY | WITNESS | CUSTOM_ROLE string

datatype note_type = HTML_CODE | GENERAL | CUSTOM_NOTE string

text \<open>The argument of \<open>_get_type\<close>: the type object of an event, an attribute or a name.\<close>

datatype gramps_type = EventType event_type | AttributeType string | NameType string

record attribute =
  attr_type :: string
  attr_value :: string

record event_ref =
  ref :: handle
  role :: event_role

record child_ref =
  cref :: handle

record name =
  name_type :: string
  name_text :: string

record address =
  addr_date :: date
  addr_text :: string

record note_object =
  note_styledtext :: styledtext
  note_format :: nat
  note_type :: note_type

record event =
  ev_type :: event_type
  ev_date :: date
  ev_place_handle :: "handle option"
  ev_description :: string
  ev_attribute_list :: "attribute list"

record person =
  p_gramps_id :: "string option"
  p_gender :: gender
  p_primary_name :: name
  p_birth_ref :: "event_ref option"
  p_death_ref :: "event_ref option"
  p_primary_event_ref_list :: "event_ref list"
  p_address_list :: "address list"
  p_note_list :: "handle list"
  p_attribute_list :: "attribute list"
  p_alternate_names :: "name list"
  p_family_handle_list :: "handle list"
  p_main_parents_family_handle :: "handle option"

text \<open>The entries of a family's event reference list are optional because the
  source guards every use with \<open>if event_ref:\<close>.\<close>

record family =
  f_gramps_id :: "string option"
  f_father_handle :: "handle option"
  f_mother_handle :: "handle option"
  f_child_ref_list :: "child_ref list"
  f_event_ref_list :: "event_ref option list"
  f_attribute_list :: "attribute list"
  f_note_list :: "handle list"

record database =
  db_people :: "handle \<rightharpoonup> person"
  db_families :: "handle \<rightharpoonup> family"
  db_events :: "handle \<rightharpoonup> event"
  db_notes :: "handle \<rightharpoonup> note_object"
  db_family_handles :: "handle list"

text \<open>Modelled from the spec: the constructor \<open>Person()\<close> of the library, which the
  source calls for an absent parent; the spec calls its result the empty person.
  Every list is empty, every reference absent and the gender unknown.\<close>

definition Person :: person where
  "Person = \<lparr> p_gramps_id = None, p_gender = UNKNOWN,
     p_primary_name = \<lparr> name_type = [], name_text = [] \<rparr>,
     p_birth_ref = None, p_death_ref = None, p_primary_event_ref_list = [],
     p_address_list = [], p_note_list = [], p_attribute_list = [],
     p_alternate_names = [], p_family_handle_list = [],
     p_main_parents_family_handle = None \<rparr>"

subsection \<open>Errors and lookups\<close>

datatype error =
    HandleError handle
  | KeyError string
  | TypeError
  | ValueError
  | UnsupportedFormat

definition get_person_from_handle :: "database \<Rightarrow> handle \<Rightarrow> error + person" where
  "get_person_from_handle db h =
     (case db_people db h of None \<Rightarrow> Inl (HandleError h) | Some p \<Rightarrow> Inr p)"

definition get_family_from_handle :: "database \<Rightarrow> handle \<Rightarrow> error + family" where
  "get_family_from_handle db h =
     (case db_families db h of None \<Rightarrow> Inl (HandleError h) | Some f \<Rightarrow> Inr f)"

definition get_event_from_handle :: "database \<Rightarrow> handle \<Rightarrow> error + event" where
  "get_event_from_handle db h =
     (case db_events db h of None \<Rightarrow> Inl (HandleError h) | Some e \<Rightarrow> Inr e)"

definition get_note_from_handle :: "database \<Rightarrow> handle \<Rightarrow> error + note_object" where
  "get_note_from_handle db h =
     (case db_notes db h of None \<Rightarrow> Inl (HandleError h) | Some n \<Rightarrow> Inr n)"

text \<open>Python truthiness of an optional string: \<open>None\<close> and the empty string are false.\<close>

fun truthy :: "string option \<Rightarrow> bool" where
  "truthy None = False"
| "truthy (Some s) = (s \<noteq> [])"

subsection \<open>String formatting\<close>

text \<open>\<open>"%d" % n\<close>: the decimal digits of an integer.\<close>

definition digit_char :: "nat \<Rightarrow> char" where
  "digit_char d = ''0123456789'' ! d"

fun digits :: "nat \<Rightarrow> string" where
  "digits n = (if n < 10 then [digit_char n] else digits (n div 10) @ [digit_char (n mod 10)])"

declare digits.simps [simp del]

definition str_int :: "int \<Rightarrow> string" where
  "str_int i = (if i < 0 then CHR ''-'' # digits (nat (- i)) else digits (nat i))"

text \<open>\<open>str(x)\<close> of an optional string, as \<open>"%s"\<close> prints it.\<close>

fun str_opt :: "string option \<Rightarrow> string" where
  "str_opt None = ''None''"
| "str_opt (Some s) = s"

datatype fmt_value = FInt int | FStr string

datatype fmt_args = Positional "fmt_value list" | Mapping "(string \<times> fmt_value) list"

fun str_value :: "fmt_value \<Rightarrow> string" where
  "str_value (FInt i) = str_int i"
| "str_value (FStr s) = s"

text \<open>
  The operator \<open>%\<close> on a format string that a translation may have replaced.  The
  conversions the messages of this module use are interpreted: \<open>%s\<close>, \<open>%d\<close>,
  \<open>%(key)s\<close>, \<open>%(key)d\<close> and \<open>%%\<close>.  A missing argument or a left-over positional
  argument is a \<open>TypeError\<close>, a missing key a \<open>KeyError\<close>, \<open>%d\<close> of a string a
  \<open>TypeError\<close>, a lone \<open>%\<close> at the end a \<open>ValueError\<close>.  Any other conversion,
  and a conversion without a key applied to a mapping, is reported as
  \<open>UnsupportedFormat\<close>; no theorem below speaks about it.
\<close>

definition convert :: "char \<Rightarrow> fmt_value \<Rightarrow> error + string" where
  "convert c v =
     (if c = CHR ''s'' then Inr (str_value v)
      else if c = CHR ''d'' then (case v of FInt i \<Rightarrow> Inr (str_int i) | FStr s \<Rightarrow> Inl TypeError)
      else Inl UnsupportedFormat)"

datatype fmt_state = Plain | AfterPercent | InKey string | AfterKey string

fun fmt_run :: "fmt_state \<Rightarrow> string \<Rightarrow> fmt_args \<Rightarrow> error + string" where
  "fmt_run Plain [] args =
     (case args of Positional (v # vs) \<Rightarrow> Inl TypeError | _ \<Rightarrow> Inr [])"
| "fmt_run Plain (c # cs) args =
     (if c = CHR ''%'' then fmt_run AfterPercent cs args
      else (case fmt_run Plain cs args of Inl e \<Rightarrow> Inl e | Inr s \<Rightarrow> Inr (c # s)))"
| "fmt_run AfterPercent [] args = Inl ValueError"
| "fmt_run AfterPercent (c # cs) args =
     (if c = CHR ''%'' then
        (case fmt_run Plain cs args of Inl e \<Rightarrow> Inl e | Inr s \<Rightarrow> Inr (CHR ''%'' # s))
      else if c = CHR ''('' then
        (case args of
           Positional vs \<Rightarrow> Inl TypeError
         | Mapping m \<Rightarrow> fmt_run (InKey []) cs args)
      else
        (case args of
           Mapping m \<Rightarrow> Inl UnsupportedFormat
         | Positional [] \<Rightarrow> Inl TypeError
         | Positional (v # vs) \<Rightarrow>
            (case convert c v of
               Inl e \<Rightarrow> Inl e
             | Inr s \<Rightarrow>
                (case fmt_run Plain cs (Positional vs) of
                   Inl e \<Rightarrow> Inl e
                 | Inr s' \<Rightarrow> Inr (s @ s')))))"
| "fmt_run (InKey k) [] args = Inl ValueError"
| "fmt_run (InKey k) (c # cs) args =
     (if c = CHR '')'' then fmt_run (AfterKey k) cs args
      else fmt_run (InKey (k @ [c])) cs args)"
| "fmt_run (AfterKey k) [] args = Inl ValueError"
| "fmt_run (AfterKey k) (c # cs) args =
     (case args of
        Positional vs \<Rightarrow> Inl TypeError
      | Mapping m \<Rightarrow>
         (case map_of m k of
            None \<Rightarrow> Inl (KeyError k)
          | Some v \<Rightarrow>
             (case convert c v of
                Inl e \<Rightarrow> Inl e
              | Inr s \<Rightarrow>
                 (case fmt_run Plain cs args of
                    Inl e \<Rightarrow> Inl e
                  | Inr s' \<Rightarrow> Inr (s @ s')))))"

definition py_format :: "string \<Rightarrow> fmt_args \<Rightarrow> error + string" where
  "py_format fmt args = fmt_run Plain fmt args"

subsection \<open>Document calls, options and collaborators\<close>

datatype index_type = INDEX_TYPE_ALP | INDEX_TYPE_TOC

datatype index_mark = IndexMark string index_type nat

text \<open>One constructor per method of the document backend the module calls;
  \<open>start_cell\<close> carries its span (1 when the source omits it) and \<open>write_text\<close>
  its optional mark.\<close>

datatype doc_call =
    StartTable string string
  | EndTable
  | StartRow
  | EndRow
  | StartCell string nat
  | EndCell
  | StartParagraph string
  | EndParagraph
  | WriteText string "index_mark option"
  | WriteStyledNote styledtext nat string bool
  | PageBreak

record options =
  gramps_ids :: bool
  recursive :: bool
  missingInfo :: bool
  generations :: bool
  incFamNotes :: bool
  incParEvents :: bool
  incParAddr :: bool
  incParNotes :: bool
  incParNames :: bool
  incParMar :: bool
  incRelDates :: bool
  incChiMar :: bool
  includeAttrs :: bool

text \<open>
  The functions the module takes from the rest of the application:
  \<open>sgettext\<close> is \<open>self._\<close>, \<open>get_date\<close> and \<open>get_type\<close> are \<open>self._get_date\<close> and
  \<open>self._get_type\<close>, \<open>display\<close> and \<open>display_name\<close> belong to \<open>self._name_display\<close>,
  \<open>display_event\<close> to the place displayer, \<open>get_person_mark\<close> and
  \<open>get_address_str\<close> to the report utilities.
\<close>

record collaborators =
  sgettext :: "string \<Rightarrow> string"
  get_date :: "date \<Rightarrow> string"
  get_type :: "gramps_type \<Rightarrow> string"
  display :: "person \<Rightarrow> string"
  display_name :: "name \<Rightarrow> string"
  display_event :: "database \<Rightarrow> event \<Rightarrow> string option"
  get_person_mark :: "database \<Rightarrow> person \<Rightarrow> index_mark option"
  get_address_str :: "address \<Rightarrow> string"

text \<open>A routine returns the document calls it made, or the exception that ended it.\<close>

type_synonym emission = "error + doc_call list"

definition bind_result :: "error + 'a \<Rightarrow> ('a \<Rightarrow> error + 'b) \<Rightarrow> error + 'b" where
  "bind_result m f = (case m of Inl e \<Rightarrow> Inl e | Inr x \<Rightarrow> f x)"

text \<open>Statements in sequence: the first exception wins, otherwise the calls are
  appended in order.  A \<open>for\<close> loop is \<open>seqs\<close> of its body mapped over the list.\<close>

fun seqs :: "(error + 'a list) list \<Rightarrow> error + 'a list" where
  "seqs [] = Inr []"
| "seqs (Inl e # rest) = Inl e"
| "seqs (Inr out # rest) = (case seqs rest of Inl e \<Rightarrow> Inl e | Inr out' \<Rightarrow> Inr (out @ out'))"

subsection \<open>The parent block\<close>

text \<open>The loop of \<open>dump_parent_event\<close> that appends the attributes to the description.\<close>

fun append_attrs :: "collaborators \<Rightarrow> string \<Rightarrow> attribute list \<Rightarrow> error + string" where
  "append_attrs c descr [] = Inr descr"
| "append_attrs c descr (attr # rest) =
     (let descr1 = (if descr \<noteq> [] then descr @ sgettext c ''; '' else descr);
          attr_type = get_type c (AttributeType (attr_type attr))
      in bind_result
           (py_format (sgettext c ''%(str1)s: %(str2)s'')
              (Mapping [(''str1'', FStr (sgettext c attr_type)), (''str2'', FStr (attr_value attr))]))
           (\<lambda>s. append_attrs c (descr1 @ s) rest))"

definition dump_parent_event ::
  "collaborators \<Rightarrow> options \<Rightarrow> database \<Rightarrow> string \<Rightarrow> event option \<Rightarrow> emission" where
  "dump_parent_event c opts db name event =
     bind_result
       (case event of
          None \<Rightarrow> Inr ([], [], [])
        | Some ev \<Rightarrow>
            (let date = get_date c (ev_date ev);
                 place = (case display_event c db ev of None \<Rightarrow> [] | Some pl \<Rightarrow> pl);
                 descr = ev_description ev
             in if includeAttrs opts
                then bind_result (append_attrs c descr (ev_attribute_list ev))
                       (\<lambda>descr'. Inr (date, place, descr'))
                else Inr (date, place, descr)))
       (\<lambda>(date, place, descr). Inr (
          [StartRow,
           StartCell ''FGR-TextContents'' 1,
           StartParagraph ''FGR-Normal'',
           WriteText name None,
           EndParagraph,
           EndCell]
          @ (if descr \<noteq> [] then
               [StartCell ''FGR-TextContentsEnd'' 2,
                StartParagraph ''FGR-Normal'',
                WriteText descr None,
                EndParagraph,
                EndCell,
                EndRow]
               @ (if date \<noteq> [] \<or> place \<noteq> [] then
                    [StartRow,
                     StartCell ''FGR-TextContents'' 1,
                     StartParagraph ''FGR-Normal'',
                     EndParagraph,
                     EndCell]
                  else [])
             else [])
          @ (if (date \<noteq> [] \<or> place \<noteq> []) \<or> descr = [] then
               [StartCell ''FGR-TextContents'' 1,
                StartParagraph ''FGR-Normal'',
                WriteText date None,
                EndParagraph,
                EndCell,
                StartCell ''FGR-TextContentsEnd'' 1,
                StartParagraph ''FGR-Normal'',
                WriteText place None,
                EndParagraph,
                EndCell,
                EndRow]
             else [])))"

definition dump_parent_line :: "string \<Rightarrow> string \<Rightarrow> doc_call list" where
  "dump_parent_line name text =
     [StartRow,
      StartCell ''FGR-TextContents'' 1,
      StartParagraph ''FGR-Normal'',
      WriteText name None,
      EndParagraph,
      EndCell,
      StartCell ''FGR-TextContentsEnd'' 2,
      StartParagraph ''FGR-Normal'',
      WriteText text None,
      EndParagraph,
      EndCell,
      EndRow]"

definition dump_parent_noteline :: "string \<Rightarrow> note_object \<Rightarrow> doc_call list" where
  "dump_parent_noteline name note =
     [StartRow,
      StartCell ''FGR-TextContents'' 1,
      StartParagraph ''FGR-Normal'',
      WriteText name None,
      EndParagraph,
      EndCell,
      StartCell ''FGR-TextContentsEnd'' 2,
      WriteStyledNote (note_styledtext note) (note_format note) ''FGR-Note''
        (note_type note = HTML_CODE),
      EndCell,
      EndRow]"

text \<open>The date of the event behind an optional birth or death reference of a
  relative, two blanks when there is none.\<close>

definition ref_date :: "collaborators \<Rightarrow> database \<Rightarrow> event_ref option \<Rightarrow> error + string" where
  "ref_date c db r =
     (case r of
        None \<Rightarrow> Inr ''  ''
      | Some event_ref \<Rightarrow>
          bind_result (get_event_from_handle db (ref event_ref))
            (\<lambda>event. Inr (get_date c (ev_date event))))"

text \<open>The life dates appended to the name of a father, a mother or a spouse when
  dates of relatives are asked for.\<close>

definition rel_dates :: "collaborators \<Rightarrow> database \<Rightarrow> person \<Rightarrow> error + string" where
  "rel_dates c db p =
     bind_result (ref_date c db (p_birth_ref p)) (\<lambda>birth.
     bind_result (ref_date c db (p_death_ref p)) (\<lambda>death.
       Inr (if p_birth_ref p \<noteq> None \<or> p_death_ref p \<noteq> None
            then '' ('' @ birth @ '' - '' @ death @ '')'' else [])))"

text \<open>The name of the father or of the mother in \<open>dump_parent_parents\<close> (the source
  repeats the same statements for both), with the mark of that person.\<close>

definition parent_name ::
  "collaborators \<Rightarrow> options \<Rightarrow> database \<Rightarrow> handle option
     \<Rightarrow> error + (string \<times> index_mark option)" where
  "parent_name c opts db parent_handle =
     (if truthy parent_handle then
        bind_result (get_person_from_handle db (str_opt parent_handle)) (\<lambda>parent.
          (let name0 = display c parent;
               name1 = (if gramps_ids opts \<and> truthy (p_gramps_id parent)
                        then name0 @ '' ('' @ str_opt (p_gramps_id parent) @ '')''
                        else name0)
           in bind_result (if incRelDates opts then rel_dates c db parent else Inr [])
                (\<lambda>dates. Inr (name1 @ dates, get_person_mark c db parent))))
      else Inr ([], None))"

definition parent_row :: "string \<Rightarrow> string \<Rightarrow> index_mark option \<Rightarrow> doc_call list" where
  "parent_row label text mark =
     [StartRow,
      StartCell ''FGR-TextContents'' 1,
      StartParagraph ''FGR-Normal'',
      WriteText label None,
      EndParagraph,
      EndCell,
      StartCell ''FGR-TextContentsEnd'' 2,
      StartParagraph ''FGR-Normal'',
      WriteText text mark,
      EndParagraph,
      EndCell,
      EndRow]"

definition dump_parent_parents ::
  "collaborators \<Rightarrow> options \<Rightarrow> database \<Rightarrow> person \<Rightarrow> emission" where
  "dump_parent_parents c opts db person =
     bind_result
       (if truthy (p_main_parents_family_handle person) then
          bind_result
            (get_family_from_handle db (str_opt (p_main_parents_family_handle person)))
            (\<lambda>family.
               bind_result (parent_name c opts db (f_father_handle family)) (\<lambda>father.
               bind_result (parent_name c opts db (f_mother_handle family)) (\<lambda>mother.
                 Inr (father, mother))))
        else Inr (([], None), ([], None)))
       (\<lambda>((father_name, father_mark), (mother_name, mother_mark)). Inr (
          (if father_name \<noteq> [] then parent_row (sgettext c ''Father'') father_name father_mark
           else if missingInfo opts then dump_parent_line (sgettext c ''Father'') []
           else [])
          @ (if mother_name \<noteq> [] then parent_row (sgettext c ''Mother'') mother_name mother_mark
             else if missingInfo opts then dump_parent_line (sgettext c ''Mother'') []
             else [])))"

text \<open>The event behind an optional reference: \<open>None\<close> without a reference.
  In \<open>dump_parent\<close> below, the comparison of an event reference of the person with
  the birth and death references is the equality of their fields.\<close>

definition ref_event :: "database \<Rightarrow> event_ref option \<Rightarrow> error + event option" where
  "ref_event db r =
     (case r of
        None \<Rightarrow> Inr None
      | Some event_ref \<Rightarrow>
          bind_result (get_event_from_handle db (ref event_ref)) (\<lambda>event. Inr (Some event)))"

definition dump_parent ::
  "collaborators \<Rightarrow> options \<Rightarrow> database \<Rightarrow> string \<Rightarrow> handle option \<Rightarrow> emission" where
  "dump_parent c opts db title person_handle =
     (if \<not> truthy person_handle \<and> \<not> missingInfo opts then Inr []
      else
        bind_result
          (if \<not> truthy person_handle then Inr Person
           else get_person_from_handle db (str_opt person_handle))
          (\<lambda>person.
          seqs [
            bind_result
              (py_format (sgettext c ''%(str1)s: %(str2)s'')
                 (Mapping [(''str1'', FStr title), (''str2'', FStr (display c person))]))
              (\<lambda>heading. Inr (
                 [StartTable title ''FGR-ParentTable'',
                  StartRow,
                  StartCell ''FGR-ParentHead'' 3,
                  StartParagraph ''FGR-ParentName'',
                  WriteText heading (get_person_mark c db person)]
                 @ (if gramps_ids opts \<and> truthy (p_gramps_id person)
                    then [WriteText ('' ('' @ str_opt (p_gramps_id person) @ '')'') None]
                    else [])
                 @ [EndParagraph,
                    EndCell,
                    EndRow])),
            bind_result (ref_event db (p_birth_ref person)) (\<lambda>birth.
              if birth \<noteq> None \<or> missingInfo opts
              then dump_parent_event c opts db (sgettext c ''Birth'') birth else Inr []),
            bind_result (ref_event db (p_death_ref person)) (\<lambda>death.
              if death \<noteq> None \<or> missingInfo opts
              then dump_parent_event c opts db (sgettext c ''Death'') death else Inr []),
            dump_parent_parents c opts db person,
            (if incParEvents opts then
               seqs (map (\<lambda>event_ref.
                   if Some event_ref \<noteq> p_birth_ref person \<and> Some event_ref \<noteq> p_death_ref person
                   then bind_result (get_event_from_handle db (ref event_ref)) (\<lambda>event.
                          dump_parent_event c opts db
                            (sgettext c (get_type c (EventType (ev_type event)))) (Some event))
                   else Inr [])
                 (p_primary_event_ref_list person))
             else Inr []),
            (if incParAddr opts then
               seqs (map (\<lambda>addr. Inr
                   [StartRow,
                    StartCell ''FGR-TextContents'' 1,
                    StartParagraph ''FGR-Normal'',
                    WriteText (sgettext c ''Address'') None,
                    EndParagraph,
                    EndCell,
                    StartCell ''FGR-TextContents'' 1,
                    StartParagraph ''FGR-Normal'',
                    WriteText (get_date c (addr_date addr)) None,
                    EndParagraph,
                    EndCell,
                    StartCell ''FGR-TextContentsEnd'' 1,
                    StartParagraph ''FGR-Normal'',
                    WriteText (get_address_str c addr) None,
                    EndParagraph,
                    EndCell,
                    EndRow])
                 (p_address_list person))
             else Inr []),
            (if incParNotes opts then
               seqs (map (\<lambda>notehandle.
                   bind_result (get_note_from_handle db notehandle) (\<lambda>note.
                     Inr (dump_parent_noteline (sgettext c ''Note'') note)))
                 (p_note_list person))
             else Inr []),
            (if includeAttrs opts then
               seqs (map (\<lambda>attr. Inr (dump_parent_line
                     (sgettext c (get_type c (AttributeType (attr_type attr)))) (attr_value attr)))
                 (p_attribute_list person))
             else Inr []),
            (if incParNames opts then
               seqs (map (\<lambda>alt_name. Inr (dump_parent_line
                     (sgettext c (get_type c (NameType (name_type alt_name))))
                     (display_name c alt_name)))
                 (p_alternate_names person))
             else Inr []),
            Inr [EndTable]]))"

subsection \<open>The marriage block\<close>

text \<open>The first loop of \<open>dump_marriage\<close>: it stops at the first reference whose
  event is a marriage and whose role is FAMILY or PRIMARY.\<close>

fun find_mrg :: "database \<Rightarrow> event_ref option list \<Rightarrow> error + event option" where
  "find_mrg db [] = Inr None"
| "find_mrg db (None # rest) = find_mrg db rest"
| "find_mrg db (Some event_ref # rest) =
     bind_result (get_event_from_handle db (ref event_ref)) (\<lambda>event.
       if ev_type event = MARRIAGE \<and> (role event_ref = FAMILY \<or> role event_ref = PRIMARY)
       then Inr (Some event)
       else find_mrg db rest)"

definition dump_marriage ::
  "collaborators \<Rightarrow> options \<Rightarrow> database \<Rightarrow> family option \<Rightarrow> emission" where
  "dump_marriage c opts db family_opt =
     (case family_opt of
        None \<Rightarrow> Inr []
      | Some family \<Rightarrow>
          bind_result (find_mrg db (f_event_ref_list family)) (\<lambda>mrg.
            if length (f_event_ref_list family) > 0 \<or> missingInfo opts \<or> includeAttrs opts then
              seqs [
                bind_result
                  (py_format (sgettext c ''%s:'')
                     (Positional [FStr
                        (if gramps_ids opts
                         then sgettext c ''Marriage'' @ '' ('' @ str_opt (f_gramps_id family) @ '')''
                         else sgettext c ''Marriage'')]))
                  (\<lambda>heading. Inr
                     [StartTable ''MarriageInfo'' ''FGR-ParentTable'',
                      StartRow,
                      StartCell ''FGR-ParentHead'' 3,
                      StartParagraph ''FGR-ParentName'',
                      WriteText heading None,
                      EndParagraph,
                      EndCell,
                      EndRow]),
                dump_parent_event c opts db (sgettext c ''Marriage'') mrg,
                seqs (map (\<lambda>event_ref_opt.
                    case event_ref_opt of
                      None \<Rightarrow> Inr []
                    | Some event_ref \<Rightarrow>
                        bind_result (get_event_from_handle db (ref event_ref)) (\<lambda>event.
                          if ev_type event \<noteq> MARRIAGE
                          then dump_parent_event c opts db
                                 (sgettext c (get_type c (EventType (ev_type event)))) (Some event)
                          else Inr []))
                  (f_event_ref_list family)),
                (if includeAttrs opts then
                   seqs (map (\<lambda>attr. Inr (dump_parent_line
                         (sgettext c (get_type c (AttributeType (attr_type attr)))) (attr_value attr)))
                     (f_attribute_list family))
                 else Inr []),
                (if incFamNotes opts then
                   seqs (map (\<lambda>notehandle.
                       bind_result (get_note_from_handle db notehandle) (\<lambda>note.
                         Inr (dump_parent_noteline (sgettext c ''Note'') note)))
                     (f_note_list family))
                 else Inr []),
                Inr [EndTable]]
            else Inr []))"

subsection \<open>The children table\<close>

definition dump_child_event ::
  "collaborators \<Rightarrow> database \<Rightarrow> string \<Rightarrow> string \<Rightarrow> event option \<Rightarrow> doc_call list" where
  "dump_child_event c db text name event =
     (let (date, place) =
        (case event of
           None \<Rightarrow> ([], [])
         | Some ev \<Rightarrow>
             (get_date c (ev_date ev),
              if truthy (ev_place_handle ev)
              then (case display_event c db ev of None \<Rightarrow> [] | Some pl \<Rightarrow> pl)
              else []))
      in [StartRow,
          StartCell text 1,
          StartParagraph ''FGR-Normal'',
          EndParagraph,
          EndCell,
          StartCell ''FGR-TextContents'' 1,
          StartParagraph ''FGR-Normal'',
          WriteText name None,
          EndParagraph,
          EndCell,
          StartCell ''FGR-TextContents'' 1,
          StartParagraph ''FGR-Normal'',
          WriteText date None,
          EndParagraph,
          EndCell,
          StartCell ''FGR-TextContentsEnd'' 1,
          StartParagraph ''FGR-Normal'',
          WriteText place None,
          EndParagraph,
          EndCell,
          EndRow])"

text \<open>The other parent of a family, seen from the child's handle.\<close>

definition spouse_of :: "handle \<Rightarrow> family \<Rightarrow> handle option" where
  "spouse_of person_handle family =
     (if Some person_handle = f_father_handle family
      then f_mother_handle family
      else f_father_handle family)"

text \<open>The counting loop at the head of \<open>dump_child\<close>.\<close>

fun count_spouses :: "database \<Rightarrow> handle \<Rightarrow> nat \<Rightarrow> handle list \<Rightarrow> error + nat" where
  "count_spouses db person_handle spouse_count [] = Inr spouse_count"
| "count_spouses db person_handle spouse_count (family_handle # rest) =
     bind_result (get_family_from_handle db family_handle) (\<lambda>family.
       count_spouses db person_handle
         (if truthy (spouse_of person_handle family) then spouse_count + 1 else spouse_count)
         rest)"

text \<open>The inner loop of \<open>dump_child\<close>: the first event of type marriage, whatever
  the role of its reference.\<close>

fun find_child_mrg :: "database \<Rightarrow> event_ref option list \<Rightarrow> error + event option" where
  "find_child_mrg db [] = Inr None"
| "find_child_mrg db (None # rest) = find_child_mrg db rest"
| "find_child_mrg db (Some event_ref # rest) =
     bind_result (get_event_from_handle db (ref event_ref)) (\<lambda>event.
       if ev_type event = MARRIAGE then Inr (Some event) else find_child_mrg db rest)"

text \<open>The loop over the families of a child; \<open>index\<close> is the counter before its
  increment and \<open>families\<close> the length of the whole list.\<close>

fun dump_child_families ::
  "collaborators \<Rightarrow> options \<Rightarrow> database \<Rightarrow> handle \<Rightarrow> nat \<Rightarrow> nat \<Rightarrow> handle list \<Rightarrow> emission"
where
  "dump_child_families c opts db person_handle families index [] = Inr []"
| "dump_child_families c opts db person_handle families index (family_handle # rest) =
     seqs [
       bind_result (get_family_from_handle db family_handle) (\<lambda>family.
       bind_result (find_child_mrg db (f_event_ref_list family)) (\<lambda>mrg.
         seqs [
           (if truthy (spouse_of person_handle family) then
              bind_result (get_person_from_handle db (str_opt (spouse_of person_handle family)))
                (\<lambda>spouse.
              bind_result (if incRelDates opts then rel_dates c db spouse else Inr [])
                (\<lambda>dates. Inr
                   [StartRow,
                    StartCell (if mrg \<noteq> None \<or> index + 1 \<noteq> families
                               then ''FGR-TextChild1'' else ''FGR-TextChild2'') 1,
                    StartParagraph ''FGR-Normal'',
                    EndParagraph,
                    EndCell,
                    StartCell ''FGR-TextContents'' 1,
                    StartParagraph ''FGR-Normal'',
                    WriteText (sgettext c ''Spouse'') None,
                    EndParagraph,
                    EndCell,
                    StartCell ''FGR-TextContentsEnd'' 2,
                    StartParagraph ''FGR-Normal'',
                    WriteText
                      (display c spouse
                       @ (if gramps_ids opts \<and> truthy (p_gramps_id spouse)
                          then '' ('' @ str_opt (p_gramps_id spouse) @ '')'' else [])
                       @ dates
                       @ (if gramps_ids opts \<and> truthy (f_gramps_id family)
                          then '' ('' @ str_opt (f_gramps_id family) @ '')'' else []))
                      (get_person_mark c db spouse),
                    EndParagraph,
                    EndCell,
                    EndRow]))
            else Inr []),
           (if mrg \<noteq> None then
              Inr (dump_child_event c db
                     (if index + 1 = families then ''FGR-TextChild2'' else ''FGR-TextChild1'')
                     (sgettext c ''Marriage'') mrg)
            else Inr [])])),
       dump_child_families c opts db person_handle families (index + 1) rest]"

definition dump_child ::
  "collaborators \<Rightarrow> options \<Rightarrow> database \<Rightarrow> int \<Rightarrow> handle \<Rightarrow> emission" where
  "dump_child c opts db index person_handle =
     bind_result (get_person_from_handle db person_handle) (\<lambda>person.
     bind_result (ref_event db (p_birth_ref person)) (\<lambda>birth.
     bind_result (ref_event db (p_death_ref person)) (\<lambda>death.
     bind_result
       (if incChiMar opts
        then count_spouses db person_handle 0 (p_family_handle_list person)
        else Inr 0) (\<lambda>spouse_count.
       seqs [
         bind_result
           (if p_gender person = MALE
              then Inr (str_int index @ sgettext c ''acronym for male|M'')
            else if p_gender person = FEMALE
              then Inr (str_int index @ sgettext c ''acronym for female|F'')
            else py_format (sgettext c ''acronym for unknown|%dU'') (Positional [FInt index]))
           (\<lambda>label. Inr (
              [StartRow,
               StartCell (if spouse_count \<noteq> 0 \<or> missingInfo opts \<or> death \<noteq> None \<or> birth \<noteq> None
                          then ''FGR-TextChild1'' else ''FGR-TextChild2'') 1,
               StartParagraph ''FGR-ChildText'',
               WriteText label None,
               EndParagraph,
               EndCell,
               StartCell ''FGR-ChildName'' 3,
               StartParagraph ''FGR-ChildText'',
               WriteText (display c person) (get_person_mark c db person)]
              @ (if gramps_ids opts
                 then [WriteText ('' ('' @ str_opt (p_gramps_id person) @ '')'') None]
                 else [])
              @ [EndParagraph,
                 EndCell,
                 EndRow])),
         (if missingInfo opts \<or> birth \<noteq> None then
            Inr (dump_child_event c db
                   (if spouse_count \<noteq> 0 \<or> missingInfo opts \<or> death \<noteq> None
                    then ''FGR-TextChild1'' else ''FGR-TextChild2'')
                   (sgettext c ''Birth'') birth)
          else Inr []),
         (if missingInfo opts \<or> death \<noteq> None then
            Inr (dump_child_event c db
                   (if spouse_count = 0 \<or> \<not> incChiMar opts
                    then ''FGR-TextChild2'' else ''FGR-TextChild1'')
                   (sgettext c ''Death'') death)
          else Inr []),
         (if incChiMar opts then
            dump_child_families c opts db person_handle
              (length (p_family_handle_list person)) 0 (p_family_handle_list person)
          else Inr [])]))))"

text \<open>The loop of \<open>dump_family\<close> over the child references, with its counter.\<close>

fun dump_children ::
  "collaborators \<Rightarrow> options \<Rightarrow> database \<Rightarrow> int \<Rightarrow> child_ref list \<Rightarrow> emission" where
  "dump_children c opts db index [] = Inr []"
| "dump_children c opts db index (child_ref # rest) =
     seqs [dump_child c opts db index (cref child_ref),
           dump_children c opts db (index + 1) rest]"

subsection \<open>The family section and the report driver\<close>

text \<open>
  \<open>dump_family\<close> calls itself for the families of the children, and nothing in
  the source bounds the depth: on a cyclic family graph it never returns.  The
  model counts the depth down; \<open>None\<close> says that the bound was reached.  In a
  sequence the first statement that does not return, or raises, decides.
\<close>

fun seqs_opt :: "(error + 'a list) option list \<Rightarrow> (error + 'a list) option" where
  "seqs_opt [] = Some (Inr [])"
| "seqs_opt (None # rest) = None"
| "seqs_opt (Some (Inl e) # rest) = Some (Inl e)"
| "seqs_opt (Some (Inr out) # rest) =
     (case seqs_opt rest of
        None \<Rightarrow> None
      | Some (Inl e) \<Rightarrow> Some (Inl e)
      | Some (Inr out') \<Rightarrow> Some (Inr (out @ out')))"

fun dump_family ::
  "nat \<Rightarrow> collaborators \<Rightarrow> options \<Rightarrow> database \<Rightarrow> handle \<Rightarrow> int \<Rightarrow> emission option" where
  "dump_family 0 c opts db family_handle generation = None"
| "dump_family (Suc depth) c opts db family_handle generation =
     seqs_opt [
       Some (bind_result
         (if recursive opts \<and> generations opts
          then py_format (sgettext c ''Family Group Report - Generation %d'')
                 (Positional [FInt generation])
          else Inr (sgettext c ''Family Group Report''))
         (\<lambda>title. Inr
            [StartParagraph ''FGR-Title'',
             WriteText title (Some (IndexMark title INDEX_TYPE_TOC 1)),
             EndParagraph])),
       (case get_family_from_handle db family_handle of
          Inl e \<Rightarrow> Some (Inl e)
        | Inr family \<Rightarrow>
            seqs_opt [
              Some (dump_parent c opts db (sgettext c ''Husband'') (f_father_handle family)),
              Some (Inr [StartParagraph ''FGR-blank'', EndParagraph]),
              Some (if incParMar opts then
                      seqs [dump_marriage c opts db (Some family),
                            Inr [StartParagraph ''FGR-blank'', EndParagraph]]
                    else Inr []),
              Some (dump_parent c opts db (sgettext c ''Wife'') (f_mother_handle family)),
              Some (if length (f_child_ref_list family) > 0 then
                      seqs [
                        Inr [StartParagraph ''FGR-blank'',
                             EndParagraph,
                             StartTable ''FGR-Children'' ''FGR-ChildTable'',
                             StartRow,
                             StartCell ''FGR-ParentHead'' 4,
                             StartParagraph ''FGR-ParentName'',
                             WriteText (sgettext c ''Children'') None,
                             EndParagraph,
                             EndCell,
                             EndRow],
                        dump_children c opts db 1 (f_child_ref_list family),
                        Inr [EndTable]]
                    else Inr []),
              (if recursive opts then
                 seqs_opt (map (\<lambda>child_ref.
                     case get_person_from_handle db (cref child_ref) of
                       Inl e \<Rightarrow> Some (Inl e)
                     | Inr child \<Rightarrow>
                         seqs_opt (map (\<lambda>child_family_handle.
                             if child_family_handle \<noteq> family_handle then
                               seqs_opt [
                                 Some (Inr [PageBreak]),
                                 dump_family depth c opts db child_family_handle (generation + 1)]
                             else Some (Inr []))
                           (p_family_handle_list child)))
                   (f_child_ref_list family))
               else Some (Inr []))])]"

text \<open>What the driver does, in order: calls on the document and ticks of the
  progress meter of the writing phase.\<close>

datatype effect = Doc doc_call | Step

definition doc_effects :: "emission option \<Rightarrow> (error + effect list) option" where
  "doc_effects r = map_option (map_sum id (map Doc)) r"

text \<open>
  The filter of the options is a parameter: \<open>None\<close> when no filter is set,
  otherwise the function its \<open>apply\<close> method computes on the sorted handles of
  the database.  The ticks the filter itself gives to the progress meter of the
  filtering phase are outside the module.
\<close>

definition write_report ::
  "nat \<Rightarrow> collaborators \<Rightarrow> options \<Rightarrow> (database \<Rightarrow> handle list \<Rightarrow> handle list) option
     \<Rightarrow> database \<Rightarrow> (error + effect list) option" where
  "write_report depth c opts filter_opt db =
     (let flist = db_family_handles db;
          fam_list = (case filter_opt of None \<Rightarrow> flist | Some apply \<Rightarrow> apply db flist)
      in if fam_list \<noteq> [] then
           seqs_opt (map (\<lambda>family_handle.
               seqs_opt [
                 doc_effects (dump_family depth c opts db family_handle 1),
                 Some (Inr [Doc PageBreak]),
                 Some (Inr [Step])])
             fam_list)
         else
           Some (Inr [Doc (StartParagraph ''FGR-Title''),
                      Doc (WriteText (sgettext c ''Family Group Report'') None),
                      Doc EndParagraph]))"

subsection \<open>Observations on the emitted calls\<close>

text \<open>The style of the first cell of every row, in order.\<close>

fun leading_styles :: "doc_call list \<Rightarrow> string list" where
  "leading_styles (StartRow # StartCell style span # rest) = style # leading_styles rest"
| "leading_styles (x # rest) = leading_styles rest"
| "leading_styles [] = []"

text \<open>The events behind the references of a family, each with its reference, in
  the order of the list.\<close>

fun family_events :: "database \<Rightarrow> event_ref option list \<Rightarrow> (event_ref \<times> event) list" where
  "family_events db [] = []"
| "family_events db (None # rest) = family_events db rest"
| "family_events db (Some event_ref # rest) =
     (case db_events db (ref event_ref) of
        None \<Rightarrow> family_events db rest
      | Some event \<Rightarrow> (event_ref, event) # family_events db rest)"

text \<open>Every reference of the list has its event in the database.\<close>

definition resolved :: "database \<Rightarrow> event_ref option list \<Rightarrow> bool" where
  "resolved db refs = (\<forall>r. Some r \<in> set refs \<longrightarrow> db_events db (ref r) \<noteq> None)"

text \<open>What the spec asks of the marriage event of the parents: type Marriage and
  role FAMILY or PRIMARY.\<close>

fun family_marriage :: "event_ref \<times> event \<Rightarrow> bool" where
  "family_marriage (event_ref, event) =
     (ev_type event = MARRIAGE \<and> (role event_ref = FAMILY \<or> role event_ref = PRIMARY))"

text \<open>The calls a parent block, a marriage block or a child group may make: no
  page break, no table in the style of the children table, no blank paragraph.\<close>

fun block_call :: "doc_call \<Rightarrow> bool" where
  "block_call PageBreak = False"
| "block_call (StartTable name style) = (style \<noteq> ''FGR-ChildTable'')"
| "block_call (StartParagraph style) = (style \<noteq> ''FGR-blank'')"
| "block_call x = True"

text \<open>A routine is a block routine when every run that returns made block calls only.\<close>

definition block_only :: "emission \<Rightarrow> bool" where
  "block_only r = (case r of Inl e \<Rightarrow> True | Inr out \<Rightarrow> list_all block_call out)"

subsection \<open>A small database for the concrete instances\<close>

text \<open>A message that has no translation: \<open>sgettext\<close> returns what follows the last
  bar of the message, the message itself when there is no bar.\<close>

definition untranslated :: "string \<Rightarrow> string" where
  "untranslated msgid = rev (takeWhile (\<lambda>x. x \<noteq> CHR ''|'') (rev msgid))"

definition type_name :: "gramps_type \<Rightarrow> string" where
  "type_name t =
     (case t of
        EventType BIRTH \<Rightarrow> ''Birth''
      | EventType DEATH \<Rightarrow> ''Death''
      | EventType MARRIAGE \<Rightarrow> ''Marriage''
      | EventType DIVORCE \<Rightarrow> ''Divorce''
      | EventType (CUSTOM_EVENT s) \<Rightarrow> s
      | AttributeType s \<Rightarrow> s
      | NameType s \<Rightarrow> s)"

definition plain :: collaborators where
  "plain = \<lparr> sgettext = untranslated,
     get_date = (\<lambda>d. d),
     get_type = type_name,
     display = (\<lambda>p. name_text (p_primary_name p)),
     display_name = name_text,
     display_event = (\<lambda>db ev. ev_place_handle ev),
     get_person_mark = (\<lambda>db p. None),
     get_address_str = addr_text \<rparr>"

definition named :: "string \<Rightarrow> gender \<Rightarrow> handle list \<Rightarrow> person" where
  "named n g fams = Person \<lparr> p_gender := g,
     p_primary_name := \<lparr> name_type = ''Birth Name'', name_text = n \<rparr>,
     p_family_handle_list := fams \<rparr>"

definition fam ::
  "handle option \<Rightarrow> handle option \<Rightarrow> handle list \<Rightarrow> event_ref option list \<Rightarrow> family" where
  "fam father mother children event_refs =
     \<lparr> f_gramps_id = None, f_father_handle = father, f_mother_handle = mother,
       f_child_ref_list = map (\<lambda>h. \<lparr> cref = h \<rparr>) children,
       f_event_ref_list = event_refs, f_attribute_list = [], f_note_list = [] \<rparr>"

definition happening :: "event_type \<Rightarrow> date \<Rightarrow> event" where
  "happening t d = \<lparr> ev_type = t, ev_date = d, ev_place_handle = None,
     ev_description = [], ev_attribute_list = [] \<rparr>"

text \<open>
  Family \<open>F1\<close>: Adam and Beth, married (event \<open>m1\<close>, role FAMILY), later divorced
  (\<open>d1\<close>), with a second marriage event \<open>m2\<close>; children Carl, Dora and Evan.
  Carl is the only parent of family \<open>F2\<close>, whose marriage event \<open>m3\<close> is
  referenced with role WITNESS.  Dora is the mother in \<open>F3\<close> (father Fred, no
  event) and the only parent of \<open>F4\<close> (no event).  Evan, of unknown gender, has
  no family of his own.  Family \<open>F5\<close> has no children.
\<close>

definition people_of :: "handle \<rightharpoonup> person" where
  "people_of = [
     ''A'' \<mapsto> named ''Adam'' MALE [''F1'', ''F5''],
     ''B'' \<mapsto> named ''Beth'' FEMALE [''F1''],
     ''C'' \<mapsto> named ''Carl'' MALE [''F2''],
     ''D'' \<mapsto> named ''Dora'' FEMALE [''F3'', ''F4''],
     ''E'' \<mapsto> named ''Evan'' UNKNOWN [],
     ''G'' \<mapsto> named ''Fred'' MALE [''F3'']]"

definition F1 :: family where
  "F1 = fam (Some ''A'') (Some ''B'') [''C'', ''D'', ''E'']
     [Some \<lparr> ref = ''d1'', role = FAMILY \<rparr>,
      Some \<lparr> ref = ''m1'', role = FAMILY \<rparr>,
      Some \<lparr> ref = ''m2'', role = PRIMARY \<rparr>]"

definition F2 :: family where
  "F2 = fam (Some ''C'') None [] [Some \<lparr> ref = ''m3'', role = WITNESS \<rparr>]"

definition F3 :: family where
  "F3 = fam (Some ''G'') (Some ''D'') [] []"

definition F4 :: family where
  "F4 = fam None (Some ''D'') [] []"

definition F5 :: family where
  "F5 = fam (Some ''A'') None [] []"

definition families_of :: "handle \<rightharpoonup> family" where
  "families_of = [''F1'' \<mapsto> F1, ''F2'' \<mapsto> F2, ''F3'' \<mapsto> F3, ''F4'' \<mapsto> F4, ''F5'' \<mapsto> F5]"

definition events_of :: "handle \<rightharpoonup> event" where
  "events_of = [
     ''d1'' \<mapsto> happening DIVORCE ''1990'',
     ''m1'' \<mapsto> happening MARRIAGE ''1970'',
     ''m2'' \<mapsto> happening MARRIAGE ''1971'',
     ''m3'' \<mapsto> happening MARRIAGE ''1995'']"

definition sample_db :: database where
  "sample_db = \<lparr> db_people = people_of, db_families = families_of,
     db_events = events_of, db_notes = Map.empty, db_family_handles = [''F1'', ''F5''] \<rparr>"

definition flags :: options where
  "flags = \<lparr> gramps_ids = False, recursive = False, missingInfo = False,
     generations = True, incFamNotes = False, incParEvents = False, incParAddr = False,
     incParNotes = False, incParNames = False, incParMar = True, incRelDates = False,
     incChiMar = True, includeAttrs = False \<rparr>"

section \<open>Properties\<close>

subsection \<open>Sequencing and formatting\<close>

lemma bind_result_Inr [simp]: "bind_result (Inr x) f = f x"
  by (simp add: bind_result_def)
lemma bind_result_Inl [simp]: "bind_result (Inl e) f = Inl e"
  by (simp add: bind_result_def)

lemma format_heading:
  "py_format ''%(str1)s: %(str2)s'' (Mapping [(''str1'', FStr a), (''str2'', FStr b)]) = Inr (a @ '': '' @ b)"
  by (simp add: py_format_def convert_def)

lemma dump_parent_event_None:
  "dump_parent_event c opts db name None = Inr
     [StartRow,
      StartCell ''FGR-TextContents'' 1, StartParagraph ''FGR-Normal'', WriteText name None, EndParagraph, EndCell,
      StartCell ''FGR-TextContents'' 1, StartParagraph ''FGR-Normal'', WriteText [] None, EndParagraph, EndCell,
      StartCell ''FGR-TextContentsEnd'' 1, StartParagraph ''FGR-Normal'', WriteText [] None, EndParagraph, EndCell,
      EndRow]"
  by (simp add: dump_parent_event_def)

lemma dump_parent_parents_Person:
  "dump_parent_parents c opts db Person =
     Inr ((if missingInfo opts then dump_parent_line (sgettext c ''Father'') [] else [])
        @ (if missingInfo opts then dump_parent_line (sgettext c ''Mother'') [] else []))"
  by (simp add: dump_parent_parents_def Person_def)

subsection \<open>An absent parent\<close>

text \<open>
  Claim C2.  \<open>dump_parent\<close> called with an absent person handle (\<open>None\<close> or the
  empty string): when the missing-info option is off it makes no document call
  at all; when the option is on it renders the block of the empty person
  \<open>Person()\<close>: the table, the heading built from the title and the display name
  of the empty person, an empty birth row, an empty death row, an empty father
  line, an empty mother line.  The only statement that can raise is the
  formatting of the heading, and with the untranslated heading format it does
  not.
\<close>

theorem dump_parent_absent:
  assumes "\<not> truthy person_handle"
  shows "(\<not> missingInfo opts \<longrightarrow> dump_parent c opts db title person_handle = Inr [])
    \<and> (missingInfo opts \<longrightarrow>
         dump_parent c opts db title person_handle =
           bind_result
             (py_format (sgettext c ''%(str1)s: %(str2)s'')
                (Mapping [(''str1'', FStr title), (''str2'', FStr (display c Person))]))
             (\<lambda>heading. Inr (
                [StartTable title ''FGR-ParentTable'',
                 StartRow,
                 StartCell ''FGR-ParentHead'' 3, StartParagraph ''FGR-ParentName'',
                 WriteText heading (get_person_mark c db Person), EndParagraph, EndCell,
                 EndRow,
                 StartRow,
                 StartCell ''FGR-TextContents'' 1, StartParagraph ''FGR-Normal'',
                 WriteText (sgettext c ''Birth'') None, EndParagraph, EndCell,
                 StartCell ''FGR-TextContents'' 1, StartParagraph ''FGR-Normal'',
                 WriteText [] None, EndParagraph, EndCell,
                 StartCell ''FGR-TextContentsEnd'' 1, StartParagraph ''FGR-Normal'',
                 WriteText [] None, EndParagraph, EndCell,
                 EndRow,
                 StartRow,
                 StartCell ''FGR-TextContents'' 1, StartParagraph ''FGR-Normal'',
                 WriteText (sgettext c ''Death'') None, EndParagraph, EndCell,
                 StartCell ''FGR-TextContents'' 1, StartParagraph ''FGR-Normal'',
                 WriteText [] None, EndParagraph, EndCell,
                 StartCell ''FGR-TextContentsEnd'' 1, StartParagraph ''FGR-Normal'',
                 WriteText [] None, EndParagraph, EndCell,
                 EndRow]
                @ dump_parent_line (sgettext c ''Father'') []
                @ dump_parent_line (sgettext c ''Mother'') []
                @ [EndTable])))
    \<and> (sgettext c ''%(str1)s: %(str2)s'' = ''%(str1)s: %(str2)s'' \<longrightarrow>
         py_format (sgettext c ''%(str1)s: %(str2)s'')
           (Mapping [(''str1'', FStr title), (''str2'', FStr (display c Person))])
         = Inr (title @ '': '' @ display c Person))"
proof (intro conjI impI)
  assume "\<not> missingInfo opts"
  with assms show "dump_parent c opts db title person_handle = Inr []"
    by (simp add: dump_parent_def)
next
  assume m: "missingInfo opts"
  have p: "p_birth_ref Person = None" "p_death_ref Person = None" "p_gramps_id Person = None"
    "p_primary_event_ref_list Person = []" "p_address_list Person = []" "p_note_list Person = []"
    "p_attribute_list Person = []" "p_alternate_names Person = []"
    by (simp_all add: Person_def)
  show "dump_parent c opts db title person_handle = bind_result
             (py_format (sgettext c ''%(str1)s: %(str2)s'')
                (Mapping [(''str1'', FStr title), (''str2'', FStr (display c Person))]))
             (\<lambda>heading. Inr (
                [StartTable title ''FGR-ParentTable'',
                 StartRow,
                 StartCell ''FGR-ParentHead'' 3, StartParagraph ''FGR-ParentName'',
                 WriteText heading (get_person_mark c db Person), EndParagraph, EndCell,
                 EndRow,
                 StartRow,
                 StartCell ''FGR-TextContents'' 1, StartParagraph ''FGR-Normal'',
                 WriteText (sgettext c ''Birth'') None, EndParagraph, EndCell,
                 StartCell ''FGR-TextContents'' 1, StartParagraph ''FGR-Normal'',
                 WriteText [] None, EndParagraph, EndCell,
                 StartCell ''FGR-TextContentsEnd'' 1, StartParagraph ''FGR-Normal'',
                 WriteText [] None, EndParagraph, EndCell,
                 EndRow,
                 StartRow,
                 StartCell ''FGR-TextContents'' 1, StartParagraph ''FGR-Normal'',
                 WriteText (sgettext c ''Death'') None, EndParagraph, EndCell,
                 StartCell ''FGR-TextContents'' 1, StartParagraph ''FGR-Normal'',
                 WriteText [] None, EndParagraph, EndCell,
                 StartCell ''FGR-TextContentsEnd'' 1, StartParagraph ''FGR-Normal'',
                 WriteText [] None, EndParagraph, EndCell,
                 EndRow]
                @ dump_parent_line (sgettext c ''Father'') []
                @ dump_parent_line (sgettext c ''Mother'') []
                @ [EndTable]))"
    using assms m
    by (cases "py_format (sgettext c ''%(str1)s: %(str2)s'')
                (Mapping [(''str1'', FStr title), (''str2'', FStr (display c Person))])")
       (simp_all add: dump_parent_def p ref_event_def dump_parent_event_None dump_parent_parents_Person)
next
  assume "sgettext c ''%(str1)s: %(str2)s'' = ''%(str1)s: %(str2)s''"
  then show "py_format (sgettext c ''%(str1)s: %(str2)s'')
           (Mapping [(''str1'', FStr title), (''str2'', FStr (display c Person))])
         = Inr (title @ '': '' @ display c Person)"
    by (simp only: format_heading)
qed

theorem dump_parent_absent_witness:
  "\<not> truthy None \<and> missingInfo (flags\<lparr>missingInfo := True\<rparr>)
   \<and> sgettext plain ''%(str1)s: %(str2)s'' = ''%(str1)s: %(str2)s''
   \<and> dump_parent plain flags sample_db ''Wife'' None = Inr []
   \<and> (\<exists>rest. dump_parent plain (flags\<lparr>missingInfo := True\<rparr>) sample_db ''Wife'' None =
        Inr ([StartTable ''Wife'' ''FGR-ParentTable'', StartRow,
              StartCell ''FGR-ParentHead'' 3, StartParagraph ''FGR-ParentName'',
              WriteText ''Wife: '' None] @ rest))"
proof -
  have h: "\<not> truthy None" by simp
  have m: "missingInfo (flags\<lparr>missingInfo := True\<rparr>)" by simp
  have n: "\<not> missingInfo flags" by (simp add: flags_def)
  have u: "sgettext plain ''%(str1)s: %(str2)s'' = ''%(str1)s: %(str2)s''"
    by (simp add: plain_def untranslated_def)
  have d: "display plain Person = []" "get_person_mark plain sample_db Person = None"
    by (simp_all add: plain_def Person_def)
  note t1 = dump_parent_absent [OF h, of flags plain sample_db "''Wife''"]
  note t2 = dump_parent_absent [OF h, of "flags\<lparr>missingInfo := True\<rparr>" plain sample_db "''Wife''"]
  from t1 n have a: "dump_parent plain flags sample_db ''Wife'' None = Inr []" by blast
  from t2 m u have b: "\<exists>rest. dump_parent plain (flags\<lparr>missingInfo := True\<rparr>) sample_db ''Wife'' None =
        Inr ([StartTable ''Wife'' ''FGR-ParentTable'', StartRow,
              StartCell ''FGR-ParentHead'' 3, StartParagraph ''FGR-ParentName'',
              WriteText ''Wife: '' None] @ rest)"
    by (simp add: d)
  from h m u a b show ?thesis by blast
qed

subsection \<open>Border styles of a child group\<close>

text \<open>
  Claim C8 asks that the last row of a child group has the closing style
  \<open>FGR-TextChild2\<close> in its first cell and every earlier row the open style
  \<open>FGR-TextChild1\<close>.  The source decides the style of a row by looking ahead,
  but it counts spouses where it should count rows, and it takes every later
  family of the child to produce a row.  With children's marriages on and
  missing-info off:
  Carl has one family with a marriage event and no spouse, so his index row is
  closed although a marriage row follows;
  Dora has a first family with a spouse and no marriage event and a second
  family with neither, so her spouse row is her last row and stays open.
\<close>

theorem dump_child_border_styles:
  "map_sum id leading_styles (dump_child plain flags sample_db 1 ''C'')
     = Inr [''FGR-TextChild2'', ''FGR-TextChild2'']
   \<and> map_sum id leading_styles (dump_child plain flags sample_db 2 ''D'')
     = Inr [''FGR-TextChild1'', ''FGR-TextChild1'']"
  by code_simp

theorem dump_child_border_styles_witness:
  "(\<exists>out. dump_child plain flags sample_db 2 ''D'' = Inr out
      \<and> last (leading_styles out) = ''FGR-TextChild1'')
   \<and> (\<exists>out. dump_child plain flags sample_db 1 ''C'' = Inr out
      \<and> length (leading_styles out) = 2 \<and> hd (leading_styles out) = ''FGR-TextChild2'')"
proof -
  have c: "\<exists>out. dump_child plain flags sample_db 1 ''C'' = Inr out
      \<and> length (leading_styles out) = 2 \<and> hd (leading_styles out) = ''FGR-TextChild2''"
    using dump_child_border_styles
    by (cases "dump_child plain flags sample_db 1 ''C''") auto
  have d: "\<exists>out. dump_child plain flags sample_db 2 ''D'' = Inr out
      \<and> last (leading_styles out) = ''FGR-TextChild1''"
    using dump_child_border_styles
    by (cases "dump_child plain flags sample_db 2 ''D''") auto
  from c d show ?thesis by blast
qed

subsection \<open>The marriage block\<close>

lemma bind_result_eq_Inr: "bind_result m f = Inr y \<longleftrightarrow> (\<exists>x. m = Inr x \<and> f x = Inr y)"
  by (cases m) simp_all

lemma seqs_eq_Inr_Cons:
  "seqs (m # rest) = Inr out \<longleftrightarrow> (\<exists>a b. m = Inr a \<and> seqs rest = Inr b \<and> out = a @ b)"
  by (cases m; cases "seqs rest") auto

lemma seqs_Nil_eq: "seqs [] = Inr out \<longleftrightarrow> out = []"
  by auto

lemma find_mrg_resolved:
  "resolved db refs \<Longrightarrow>
   find_mrg db refs = Inr (map_option snd (find family_marriage (family_events db refs)))"
proof (induction db refs rule: find_mrg.induct)
  case (1 db)
  show ?case by simp
next
  case (2 db rest)
  then show ?case by (simp add: resolved_def)
next
  case (3 db event_ref rest)
  from "3.prems" obtain event where e: "db_events db (ref event_ref) = Some event"
    by (auto simp: resolved_def)
  from "3.prems" have r: "resolved db rest" by (simp add: resolved_def)
  show ?case
  proof (cases "family_marriage (event_ref, event)")
    case True
    with e show ?thesis by (simp add: get_event_from_handle_def)
  next
    case False
    with e "3.IH" [of event] r show ?thesis
      by (auto simp: get_event_from_handle_def)
  qed
qed

lemma others_loop:
  "seqs (map (\<lambda>event_ref_opt.
        case event_ref_opt of
          None \<Rightarrow> Inr []
        | Some event_ref \<Rightarrow>
            bind_result (get_event_from_handle db (ref event_ref)) (\<lambda>event.
              if ev_type event \<noteq> MARRIAGE then body event else Inr []))
      refs) = Inr out \<Longrightarrow>
   resolved db refs \<and>
   seqs (map (\<lambda>(event_ref, event). body event)
     (filter (\<lambda>(event_ref, event). ev_type event \<noteq> MARRIAGE) (family_events db refs))) = Inr out"
proof (induction refs arbitrary: out)
  case Nil
  then show ?case by (simp add: resolved_def)
next
  case (Cons x refs)
  from Cons.prems obtain a b where
    a: "(case x of None \<Rightarrow> Inr [] | Some event_ref \<Rightarrow>
            bind_result (get_event_from_handle db (ref event_ref)) (\<lambda>event.
              if ev_type event \<noteq> MARRIAGE then body event else Inr [])) = Inr a"
    and b: "seqs (map (\<lambda>event_ref_opt.
        case event_ref_opt of
          None \<Rightarrow> Inr []
        | Some event_ref \<Rightarrow>
            bind_result (get_event_from_handle db (ref event_ref)) (\<lambda>event.
              if ev_type event \<noteq> MARRIAGE then body event else Inr []))
      refs) = Inr b"
    and out: "out = a @ b"
    by (auto simp: seqs_eq_Inr_Cons)
  from Cons.IH [OF b] have r: "resolved db refs"
    and s: "seqs (map (\<lambda>(event_ref, event). body event)
     (filter (\<lambda>(event_ref, event). ev_type event \<noteq> MARRIAGE) (family_events db refs))) = Inr b"
    by simp_all
  show ?case
  proof (cases x)
    case None
    with a r s out show ?thesis by (simp add: resolved_def)
  next
    case (Some event_ref)
    with a obtain event where e: "db_events db (ref event_ref) = Some event"
      and k: "(if ev_type event \<noteq> MARRIAGE then body event else Inr []) = Inr a"
      by (auto simp: bind_result_eq_Inr get_event_from_handle_def split: option.splits)
    from e r Some have "resolved db (x # refs)" by (auto simp: resolved_def)
    moreover from e k s out Some have "seqs (map (\<lambda>(event_ref, event). body event)
     (filter (\<lambda>(event_ref, event). ev_type event \<noteq> MARRIAGE) (family_events db (x # refs)))) = Inr out"
      by (auto simp: seqs_eq_Inr_Cons split: if_splits)
    ultimately show ?thesis by simp
  qed
qed


lemma dump_marriage_shape:
  assumes "dump_marriage c opts db (Some family) = Inr out"
    and "f_event_ref_list family \<noteq> [] \<or> missingInfo opts \<or> includeAttrs opts"
  shows "\<exists>mrg heading mrows orows arows nrows.
    find_mrg db (f_event_ref_list family) = Inr mrg
    \<and> out = [StartTable ''MarriageInfo'' ''FGR-ParentTable'',
                  StartRow,
                  StartCell ''FGR-ParentHead'' 3, StartParagraph ''FGR-ParentName'',
                  WriteText heading None, EndParagraph, EndCell,
                  EndRow] @ mrows @ orows
             @ arows @ nrows @ [EndTable]
    \<and> (if includeAttrs opts then
          seqs (map (\<lambda>attr. Inr (dump_parent_line
                (sgettext c (get_type c (AttributeType (attr_type attr)))) (attr_value attr)))
            (f_attribute_list family))
        else Inr []) = Inr arows
    \<and> (if incFamNotes opts then
          seqs (map (\<lambda>notehandle.
              bind_result (get_note_from_handle db notehandle) (\<lambda>note.
                Inr (dump_parent_noteline (sgettext c ''Note'') note)))
            (f_note_list family))
        else Inr []) = Inr nrows
    \<and> dump_parent_event c opts db (sgettext c ''Marriage'') mrg = Inr mrows
    \<and> seqs (map (\<lambda>event_ref_opt.
                    case event_ref_opt of
                      None \<Rightarrow> Inr []
                    | Some event_ref \<Rightarrow>
                        bind_result (get_event_from_handle db (ref event_ref)) (\<lambda>event.
                          if ev_type event \<noteq> MARRIAGE
                          then dump_parent_event c opts db
                                 (sgettext c (get_type c (EventType (ev_type event)))) (Some event)
                          else Inr []))
                  (f_event_ref_list family)) = Inr orows"
  using assms
  by (clarsimp simp: dump_marriage_def bind_result_eq_Inr seqs_eq_Inr_Cons split del: if_split)

text \<open>
  Claim C7.  For a family handed to \<open>dump_marriage\<close>, the block is emitted if and
  only if the event reference list is not empty or missing-info is on or
  attribute inclusion is on: otherwise the routine makes no call; if so, every
  run that returns starts with the table and its heading row.  When no event
  of the list is a marriage with role FAMILY or PRIMARY, the row that follows
  the heading is the marriage row with empty date, place and description.
  (\<open>dump_family\<close> calls the routine only when the parent-marriage option is on.)
\<close>

theorem marriage_block_emitted:
  "(\<not> (f_event_ref_list family \<noteq> [] \<or> missingInfo opts \<or> includeAttrs opts) \<longrightarrow>
      dump_marriage c opts db (Some family) = Inr [])
   \<and> (f_event_ref_list family \<noteq> [] \<or> missingInfo opts \<or> includeAttrs opts \<longrightarrow>
      (\<forall>out. dump_marriage c opts db (Some family) = Inr out \<longrightarrow>
        (\<exists>heading rest.
           out = [StartTable ''MarriageInfo'' ''FGR-ParentTable'',
                  StartRow,
                  StartCell ''FGR-ParentHead'' 3, StartParagraph ''FGR-ParentName'',
                  WriteText heading None, EndParagraph, EndCell,
                  EndRow] @ rest
           \<and> (find family_marriage (family_events db (f_event_ref_list family)) = None \<longrightarrow>
                (\<exists>rest'. rest =
                  [StartRow,
                   StartCell ''FGR-TextContents'' 1, StartParagraph ''FGR-Normal'',
                   WriteText (sgettext c ''Marriage'') None, EndParagraph, EndCell,
                   StartCell ''FGR-TextContents'' 1, StartParagraph ''FGR-Normal'',
                   WriteText [] None, EndParagraph, EndCell,
                   StartCell ''FGR-TextContentsEnd'' 1, StartParagraph ''FGR-Normal'',
                   WriteText [] None, EndParagraph, EndCell,
                   EndRow] @ rest')))))"
proof (intro conjI impI allI)
  assume "\<not> (f_event_ref_list family \<noteq> [] \<or> missingInfo opts \<or> includeAttrs opts)"
  then show "dump_marriage c opts db (Some family) = Inr []"
    by (simp add: dump_marriage_def)
next
  fix out
  assume cond: "f_event_ref_list family \<noteq> [] \<or> missingInfo opts \<or> includeAttrs opts"
    and ok: "dump_marriage c opts db (Some family) = Inr out"
  from dump_marriage_shape [OF ok cond] obtain mrg heading mrows orows arows nrows where
    mrg: "find_mrg db (f_event_ref_list family) = Inr mrg"
    and out: "out = [StartTable ''MarriageInfo'' ''FGR-ParentTable'',
                  StartRow,
                  StartCell ''FGR-ParentHead'' 3, StartParagraph ''FGR-ParentName'',
                  WriteText heading None, EndParagraph, EndCell,
                  EndRow] @ mrows @ orows @ arows @ nrows @ [EndTable]"
    and mrows: "dump_parent_event c opts db (sgettext c ''Marriage'') mrg = Inr mrows"
    and orows: "seqs (map (\<lambda>event_ref_opt.
                    case event_ref_opt of
                      None \<Rightarrow> Inr []
                    | Some event_ref \<Rightarrow>
                        bind_result (get_event_from_handle db (ref event_ref)) (\<lambda>event.
                          if ev_type event \<noteq> MARRIAGE
                          then dump_parent_event c opts db
                                 (sgettext c (get_type c (EventType (ev_type event)))) (Some event)
                          else Inr []))
                  (f_event_ref_list family)) = Inr orows"
    by blast
  from others_loop [OF orows] have res: "resolved db (f_event_ref_list family)" by simp
  show "\<exists>heading rest.
           out = [StartTable ''MarriageInfo'' ''FGR-ParentTable'',
                  StartRow,
                  StartCell ''FGR-ParentHead'' 3, StartParagraph ''FGR-ParentName'',
                  WriteText heading None, EndParagraph, EndCell,
                  EndRow] @ rest
           \<and> (find family_marriage (family_events db (f_event_ref_list family)) = None \<longrightarrow>
                (\<exists>rest'. rest =
                  [StartRow,
                   StartCell ''FGR-TextContents'' 1, StartParagraph ''FGR-Normal'',
                   WriteText (sgettext c ''Marriage'') None, EndParagraph, EndCell,
                   StartCell ''FGR-TextContents'' 1, StartParagraph ''FGR-Normal'',
                   WriteText [] None, EndParagraph, EndCell,
                   StartCell ''FGR-TextContentsEnd'' 1, StartParagraph ''FGR-Normal'',
                   WriteText [] None, EndParagraph, EndCell,
                   EndRow] @ rest'))"
  proof (intro exI conjI impI)
    show "out = [StartTable ''MarriageInfo'' ''FGR-ParentTable'',
                  StartRow,
                  StartCell ''FGR-ParentHead'' 3, StartParagraph ''FGR-ParentName'',
                  WriteText heading None, EndParagraph, EndCell,
                  EndRow] @ (mrows @ orows @ arows @ nrows @ [EndTable])"
      by (fact out)
  next
    assume "find family_marriage (family_events db (f_event_ref_list family)) = None"
    with mrg find_mrg_resolved [OF res] have "mrg = None" by simp
    with mrows have "mrows = [StartRow,
                   StartCell ''FGR-TextContents'' 1, StartParagraph ''FGR-Normal'',
                   WriteText (sgettext c ''Marriage'') None, EndParagraph, EndCell,
                   StartCell ''FGR-TextContents'' 1, StartParagraph ''FGR-Normal'',
                   WriteText [] None, EndParagraph, EndCell,
                   StartCell ''FGR-TextContentsEnd'' 1, StartParagraph ''FGR-Normal'',
                   WriteText [] None, EndParagraph, EndCell,
                   EndRow]"
      by (simp add: dump_parent_event_None)
    then show "mrows @ orows @ arows @ nrows @ [EndTable] = [StartRow,
                   StartCell ''FGR-TextContents'' 1, StartParagraph ''FGR-Normal'',
                   WriteText (sgettext c ''Marriage'') None, EndParagraph, EndCell,
                   StartCell ''FGR-TextContents'' 1, StartParagraph ''FGR-Normal'',
                   WriteText [] None, EndParagraph, EndCell,
                   StartCell ''FGR-TextContentsEnd'' 1, StartParagraph ''FGR-Normal'',
                   WriteText [] None, EndParagraph, EndCell,
                   EndRow] @ (orows @ arows @ nrows @ [EndTable])"
      by simp
  qed
qed


theorem marriage_block_emitted_witness:
  "dump_marriage plain flags sample_db (Some F3) = Inr []
   \<and> f_event_ref_list F2 \<noteq> []
   \<and> find family_marriage (family_events sample_db (f_event_ref_list F2)) = None
   \<and> (\<exists>heading rest'. dump_marriage plain flags sample_db (Some F2) =
         Inr ([StartTable ''MarriageInfo'' ''FGR-ParentTable'',
               StartRow,
               StartCell ''FGR-ParentHead'' 3, StartParagraph ''FGR-ParentName'',
               WriteText heading None, EndParagraph, EndCell,
               EndRow] @
              [StartRow,
               StartCell ''FGR-TextContents'' 1, StartParagraph ''FGR-Normal'',
               WriteText (sgettext plain ''Marriage'') None, EndParagraph, EndCell,
               StartCell ''FGR-TextContents'' 1, StartParagraph ''FGR-Normal'',
               WriteText [] None, EndParagraph, EndCell,
               StartCell ''FGR-TextContentsEnd'' 1, StartParagraph ''FGR-Normal'',
               WriteText [] None, EndParagraph, EndCell,
               EndRow] @ rest'))"
proof -
  have c3: "\<not> (f_event_ref_list F3 \<noteq> [] \<or> missingInfo flags \<or> includeAttrs flags)"
    by (simp add: F3_def fam_def flags_def)
  have c2: "f_event_ref_list F2 \<noteq> []"
    by (simp add: F2_def fam_def)
  have n2: "find family_marriage (family_events sample_db (f_event_ref_list F2)) = None"
    by code_simp
  have "\<not> isl (dump_marriage plain flags sample_db (Some F2))"
    by code_simp
  then obtain out where ok: "dump_marriage plain flags sample_db (Some F2) = Inr out"
    by (cases "dump_marriage plain flags sample_db (Some F2)") simp_all
  from marriage_block_emitted [of F3 flags plain sample_db] c3
  have a: "dump_marriage plain flags sample_db (Some F3) = Inr []"
    by blast
  from marriage_block_emitted [of F2 flags plain sample_db] c2 n2 ok
  have b: "\<exists>heading rest'. out =
         [StartTable ''MarriageInfo'' ''FGR-ParentTable'',
               StartRow,
               StartCell ''FGR-ParentHead'' 3, StartParagraph ''FGR-ParentName'',
               WriteText heading None, EndParagraph, EndCell,
               EndRow] @
              [StartRow,
               StartCell ''FGR-TextContents'' 1, StartParagraph ''FGR-Normal'',
               WriteText (sgettext plain ''Marriage'') None, EndParagraph, EndCell,
               StartCell ''FGR-TextContents'' 1, StartParagraph ''FGR-Normal'',
               WriteText [] None, EndParagraph, EndCell,
               StartCell ''FGR-TextContentsEnd'' 1, StartParagraph ''FGR-Normal'',
               WriteText [] None, EndParagraph, EndCell,
               EndRow] @ rest'"
    by blast
  from a c2 n2 b ok show ?thesis by blast
qed

text \<open>
  Claim C1.  When the marriage block is emitted and the routine returns, every
  reference of the family has its event, and the block is: the heading row; the
  marriage row, written for the first event of the list that is a marriage with
  role FAMILY or PRIMARY (an empty row when there is none); one entry for every
  event of the list whose type is not marriage, in list order; the attribute
  lines; the note lines; the end of the table.  An event of type marriage other
  than the selected one is therefore written nowhere in the block.
\<close>

theorem marriage_event_selection:
  assumes ok: "dump_marriage c opts db (Some family) = Inr out"
    and cond: "f_event_ref_list family \<noteq> [] \<or> missingInfo opts \<or> includeAttrs opts"
  shows "resolved db (f_event_ref_list family)
    \<and> (\<exists>heading mrows orows arows nrows.
        out = [StartTable ''MarriageInfo'' ''FGR-ParentTable'',
               StartRow,
               StartCell ''FGR-ParentHead'' 3, StartParagraph ''FGR-ParentName'',
               WriteText heading None, EndParagraph, EndCell,
               EndRow] @ mrows @ orows @ arows @ nrows @ [EndTable]
      \<and> dump_parent_event c opts db (sgettext c ''Marriage'')
          (map_option snd (find family_marriage (family_events db (f_event_ref_list family))))
          = Inr mrows
      \<and> seqs (map (\<lambda>(event_ref, event).
            dump_parent_event c opts db
              (sgettext c (get_type c (EventType (ev_type event)))) (Some event))
          (filter (\<lambda>(event_ref, event). ev_type event \<noteq> MARRIAGE)
             (family_events db (f_event_ref_list family)))) = Inr orows
      \<and> (if includeAttrs opts then
            seqs (map (\<lambda>attr. Inr (dump_parent_line
                  (sgettext c (get_type c (AttributeType (attr_type attr)))) (attr_value attr)))
              (f_attribute_list family))
          else Inr []) = Inr arows
      \<and> (if incFamNotes opts then
            seqs (map (\<lambda>notehandle.
                bind_result (get_note_from_handle db notehandle) (\<lambda>note.
                  Inr (dump_parent_noteline (sgettext c ''Note'') note)))
              (f_note_list family))
          else Inr []) = Inr nrows)"
proof -
  from dump_marriage_shape [OF ok cond] obtain mrg heading mrows orows arows nrows where
    mrg: "find_mrg db (f_event_ref_list family) = Inr mrg"
    and out: "out = [StartTable ''MarriageInfo'' ''FGR-ParentTable'',
                  StartRow,
                  StartCell ''FGR-ParentHead'' 3, StartParagraph ''FGR-ParentName'',
                  WriteText heading None, EndParagraph, EndCell,
                  EndRow] @ mrows @ orows @ arows @ nrows @ [EndTable]"
    and arows: "(if includeAttrs opts then
            seqs (map (\<lambda>attr. Inr (dump_parent_line
                  (sgettext c (get_type c (AttributeType (attr_type attr)))) (attr_value attr)))
              (f_attribute_list family))
          else Inr []) = Inr arows"
    and nrows: "(if incFamNotes opts then
            seqs (map (\<lambda>notehandle.
                bind_result (get_note_from_handle db notehandle) (\<lambda>note.
                  Inr (dump_parent_noteline (sgettext c ''Note'') note)))
              (f_note_list family))
          else Inr []) = Inr nrows"
    and mrows: "dump_parent_event c opts db (sgettext c ''Marriage'') mrg = Inr mrows"
    and orows: "seqs (map (\<lambda>event_ref_opt.
                    case event_ref_opt of
                      None \<Rightarrow> Inr []
                    | Some event_ref \<Rightarrow>
                        bind_result (get_event_from_handle db (ref event_ref)) (\<lambda>event.
                          if ev_type event \<noteq> MARRIAGE
                          then dump_parent_event c opts db
                                 (sgettext c (get_type c (EventType (ev_type event)))) (Some event)
                          else Inr []))
                  (f_event_ref_list family)) = Inr orows"
    by blast
  from others_loop [OF orows] have res: "resolved db (f_event_ref_list family)"
    and others: "seqs (map (\<lambda>(event_ref, event).
            dump_parent_event c opts db
              (sgettext c (get_type c (EventType (ev_type event)))) (Some event))
          (filter (\<lambda>(event_ref, event). ev_type event \<noteq> MARRIAGE)
             (family_events db (f_event_ref_list family)))) = Inr orows"
    by simp_all
  from mrg find_mrg_resolved [OF res]
  have "mrg = map_option snd (find family_marriage (family_events db (f_event_ref_list family)))"
    by simp
  with mrows have m: "dump_parent_event c opts db (sgettext c ''Marriage'')
          (map_option snd (find family_marriage (family_events db (f_event_ref_list family))))
          = Inr mrows"
    by simp
  from res out m others arows nrows show ?thesis by blast
qed

theorem marriage_event_selection_witness:
  "f_event_ref_list F1 \<noteq> []
   \<and> resolved sample_db (f_event_ref_list F1)
   \<and> map (ref \<circ> fst) (family_events sample_db (f_event_ref_list F1)) = [''d1'', ''m1'', ''m2'']
   \<and> map_option snd (find family_marriage (family_events sample_db (f_event_ref_list F1)))
       = Some (happening MARRIAGE ''1970'')
   \<and> map (ref \<circ> fst) (filter (\<lambda>(event_ref, event). ev_type event \<noteq> MARRIAGE)
             (family_events sample_db (f_event_ref_list F1))) = [''d1'']
   \<and> (\<exists>out heading mrows orows. dump_marriage plain flags sample_db (Some F1) = Inr out
        \<and> out = [StartTable ''MarriageInfo'' ''FGR-ParentTable'',
               StartRow,
               StartCell ''FGR-ParentHead'' 3, StartParagraph ''FGR-ParentName'',
               WriteText heading None, EndParagraph, EndCell,
               EndRow] @ mrows @ orows @ [EndTable]
        \<and> dump_parent_event plain flags sample_db (sgettext plain ''Marriage'')
            (Some (happening MARRIAGE ''1970'')) = Inr mrows
        \<and> dump_parent_event plain flags sample_db ''Divorce''
            (Some (happening DIVORCE ''1990'')) = Inr orows)"
proof -
  have c: "f_event_ref_list F1 \<noteq> []"
    by (simp add: F1_def fam_def)
  have "\<not> isl (dump_marriage plain flags sample_db (Some F1))"
    by code_simp
  then obtain out where ok: "dump_marriage plain flags sample_db (Some F1) = Inr out"
    by (cases "dump_marriage plain flags sample_db (Some F1)") simp_all
  have evs: "family_events sample_db (f_event_ref_list F1) =
      [(\<lparr> ref = ''d1'', role = FAMILY \<rparr>, happening DIVORCE ''1990''),
       (\<lparr> ref = ''m1'', role = FAMILY \<rparr>, happening MARRIAGE ''1970''),
       (\<lparr> ref = ''m2'', role = PRIMARY \<rparr>, happening MARRIAGE ''1971'')]"
    by (simp add: F1_def fam_def sample_db_def events_of_def)
  have f: "\<not> includeAttrs flags" "\<not> incFamNotes flags"
    by (simp_all add: flags_def)
  have g: "sgettext plain (get_type plain (EventType DIVORCE)) = ''Divorce''"
    by (simp add: plain_def type_name_def untranslated_def)
  from marriage_event_selection [OF ok disjI1, OF c]
  show ?thesis
    using c ok
    by (auto simp: evs f g happening_def seqs_eq_Inr_Cons)
qed

subsection \<open>The families of a child\<close>

lemma find_child_mrg_first:
  "find_child_mrg db refs = Inr mrg \<Longrightarrow>
   mrg = map_option snd (find (\<lambda>(event_ref, event). ev_type event = MARRIAGE) (family_events db refs))"
proof (induction db refs rule: find_child_mrg.induct)
  case (1 db)
  then show ?case by simp
next
  case (2 db rest)
  then show ?case by simp
next
  case (3 db event_ref rest)
  from "3.prems" obtain event where e: "db_events db (ref event_ref) = Some event"
    by (auto simp: bind_result_eq_Inr get_event_from_handle_def split: option.splits)
  show ?case
  proof (cases "ev_type event = MARRIAGE")
    case True
    with e "3.prems" have "mrg = Some event"
      by (simp add: get_event_from_handle_def)
    moreover from e True
    have "family_events db (Some event_ref # rest) = (event_ref, event) # family_events db rest"
      by simp
    ultimately show ?thesis using True by simp
  next
    case False
    with e "3.prems" "3.IH" [of event] show ?thesis
      by (auto simp: get_event_from_handle_def)
  qed
qed

text \<open>One round of the loop over the families of a child.\<close>

lemma child_family_round:
  assumes "dump_child_families c opts db person_handle families index (family_handle # rest) = Inr rows"
  shows "\<exists>family mrg srows after.
     db_families db family_handle = Some family
   \<and> find_child_mrg db (f_event_ref_list family) = Inr mrg
   \<and> dump_child_families c opts db person_handle families (Suc index) rest = Inr after
   \<and> rows = srows
        @ (case mrg of
             None \<Rightarrow> []
           | Some m \<Rightarrow> dump_child_event c db
               (if Suc index = families then ''FGR-TextChild2'' else ''FGR-TextChild1'')
               (sgettext c ''Marriage'') (Some m))
        @ after
   \<and> (\<not> truthy (spouse_of person_handle family) \<longrightarrow> srows = [])
   \<and> (truthy (spouse_of person_handle family) \<longrightarrow>
        (\<exists>text mark. srows =
           [StartRow,
            StartCell (if mrg \<noteq> None \<or> Suc index \<noteq> families
                       then ''FGR-TextChild1'' else ''FGR-TextChild2'') 1,
            StartParagraph ''FGR-Normal'', EndParagraph, EndCell,
            StartCell ''FGR-TextContents'' 1, StartParagraph ''FGR-Normal'',
            WriteText (sgettext c ''Spouse'') None, EndParagraph, EndCell,
            StartCell ''FGR-TextContentsEnd'' 2, StartParagraph ''FGR-Normal'',
            WriteText text mark, EndParagraph, EndCell,
            EndRow]))"
proof -
  from assms obtain family where fam: "db_families db family_handle = Some family"
    by (auto simp: seqs_eq_Inr_Cons bind_result_eq_Inr get_family_from_handle_def
        split: option.splits)
  from assms fam obtain mrg where mrg: "find_child_mrg db (f_event_ref_list family) = Inr mrg"
    by (auto simp: seqs_eq_Inr_Cons bind_result_eq_Inr get_family_from_handle_def)
  show ?thesis
  proof (cases "truthy (spouse_of person_handle family)")
    case True
    with assms fam mrg show ?thesis
      by (cases mrg)
        (auto simp: seqs_eq_Inr_Cons bind_result_eq_Inr get_family_from_handle_def
           split: sum.splits)
  next
    case False
    with assms fam mrg show ?thesis
      by (cases mrg)
        (auto simp: seqs_eq_Inr_Cons bind_result_eq_Inr get_family_from_handle_def
           split: sum.splits)
  qed
qed


lemma child_families_split:
  "dump_child_families c opts db person_handle families index fhs = Inr rows \<Longrightarrow>
   \<exists>before rest.
     dump_child_families c opts db person_handle families index (take k fhs) = Inr before
   \<and> dump_child_families c opts db person_handle families (index + k) (drop k fhs) = Inr rest
   \<and> rows = before @ rest"
proof (induction fhs arbitrary: index k rows)
  case Nil
  then show ?case by simp
next
  case (Cons fh fhs)
  show ?case
  proof (cases k)
    case 0
    with Cons.prems show ?thesis by simp
  next
    case (Suc j)
    from Cons.prems obtain g after where
      g: "dump_child_families c opts db person_handle families index [fh] = Inr g"
      and after: "dump_child_families c opts db person_handle families (Suc index) fhs = Inr after"
      and rows: "rows = g @ after"
      by (auto simp: seqs_eq_Inr_Cons)
    from Cons.IH [OF after, of j] obtain before rest where
      b: "dump_child_families c opts db person_handle families (Suc index) (take j fhs) = Inr before"
      and r: "dump_child_families c opts db person_handle families (Suc index + j) (drop j fhs) = Inr rest"
      and a: "after = before @ rest"
      by blast
    from g b have "dump_child_families c opts db person_handle families index (fh # take j fhs)
        = Inr (g @ before)"
      by (auto simp: seqs_eq_Inr_Cons)
    with r a rows Suc show ?thesis by simp
  qed
qed

text \<open>The rows \<open>dump_child\<close> writes for the \<open>k\<close>-th family of the child.\<close>

lemma child_family_at:
  assumes ok: "dump_child c opts db index person_handle = Inr out"
    and chi: "incChiMar opts"
    and person: "db_people db person_handle = Some person"
    and k: "k < length (p_family_handle_list person)"
  shows "\<exists>family mrg head earlier srows after.
     db_families db (p_family_handle_list person ! k) = Some family
   \<and> find_child_mrg db (f_event_ref_list family) = Inr mrg
   \<and> dump_child_families c opts db person_handle (length (p_family_handle_list person)) 0
        (take k (p_family_handle_list person)) = Inr earlier
   \<and> dump_child_families c opts db person_handle (length (p_family_handle_list person)) (Suc k)
        (drop (Suc k) (p_family_handle_list person)) = Inr after
   \<and> out = head @ earlier @ srows
        @ (case mrg of
             None \<Rightarrow> []
           | Some m \<Rightarrow> dump_child_event c db
               (if Suc k = length (p_family_handle_list person)
                then ''FGR-TextChild2'' else ''FGR-TextChild1'')
               (sgettext c ''Marriage'') (Some m))
        @ after
   \<and> (\<not> truthy (spouse_of person_handle family) \<longrightarrow> srows = [])
   \<and> (truthy (spouse_of person_handle family) \<longrightarrow>
        (\<exists>text mark. srows =
           [StartRow,
            StartCell (if mrg \<noteq> None \<or> Suc k \<noteq> length (p_family_handle_list person)
                       then ''FGR-TextChild1'' else ''FGR-TextChild2'') 1,
            StartParagraph ''FGR-Normal'', EndParagraph, EndCell,
            StartCell ''FGR-TextContents'' 1, StartParagraph ''FGR-Normal'',
            WriteText (sgettext c ''Spouse'') None, EndParagraph, EndCell,
            StartCell ''FGR-TextContentsEnd'' 2, StartParagraph ''FGR-Normal'',
            WriteText text mark, EndParagraph, EndCell,
            EndRow]))"
proof -
  from ok chi person obtain head fam_rows where
    out: "out = head @ fam_rows"
    and fam_rows: "dump_child_families c opts db person_handle (length (p_family_handle_list person)) 0
        (p_family_handle_list person) = Inr fam_rows"
    by (auto simp: dump_child_def bind_result_eq_Inr seqs_eq_Inr_Cons get_person_from_handle_def
        simp del: append_assoc)
  from child_families_split [OF fam_rows, of k] obtain earlier rest where
    earlier: "dump_child_families c opts db person_handle (length (p_family_handle_list person)) 0
        (take k (p_family_handle_list person)) = Inr earlier"
    and rest: "dump_child_families c opts db person_handle (length (p_family_handle_list person)) k
        (drop k (p_family_handle_list person)) = Inr rest"
    and split: "fam_rows = earlier @ rest"
    by auto
  from k have "drop k (p_family_handle_list person)
      = p_family_handle_list person ! k # drop (Suc k) (p_family_handle_list person)"
    by (simp add: Cons_nth_drop_Suc)
  with rest have "dump_child_families c opts db person_handle (length (p_family_handle_list person)) k
      (p_family_handle_list person ! k # drop (Suc k) (p_family_handle_list person)) = Inr rest"
    by simp
  from child_family_round [OF this] out split earlier show ?thesis
    by (elim exE conjE) (intro exI conjI, assumption+, simp, assumption+)
qed


text \<open>
  Claim C9.  With children's marriages on, for the \<open>k\<close>-th family of the child
  the rows of \<open>dump_child\<close> contain, before the rows of the later families, the
  marriage row of the first event of that family's reference list whose type is
  marriage (nothing when there is none); the role of the reference plays no
  part.  The parents' block asks for role FAMILY or PRIMARY as well: family
  \<open>F2\<close> has one marriage event, referenced with role WITNESS, and Carl's
  marriage row shows it while \<open>find_mrg\<close> finds no marriage event for \<open>F2\<close>.
\<close>

theorem child_marriage_event:
  "(\<forall>out person k.
      dump_child c opts db index person_handle = Inr out \<longrightarrow>
      incChiMar opts \<longrightarrow>
      db_people db person_handle = Some person \<longrightarrow>
      k < length (p_family_handle_list person) \<longrightarrow>
      (\<exists>family before after.
          db_families db (p_family_handle_list person ! k) = Some family
        \<and> dump_child_families c opts db person_handle (length (p_family_handle_list person))
             (Suc k) (drop (Suc k) (p_family_handle_list person)) = Inr after
        \<and> out = before
            @ (case map_option snd (find (\<lambda>(event_ref, event). ev_type event = MARRIAGE)
                      (family_events db (f_event_ref_list family))) of
                 None \<Rightarrow> []
               | Some m \<Rightarrow> dump_child_event c db
                   (if Suc k = length (p_family_handle_list person)
                    then ''FGR-TextChild2'' else ''FGR-TextChild1'')
                   (sgettext c ''Marriage'') (Some m))
            @ after))
   \<and> dump_child plain flags sample_db 1 ''C'' = Inr (
        [StartRow,
         StartCell ''FGR-TextChild2'' 1, StartParagraph ''FGR-ChildText'',
         WriteText ''1M'' None, EndParagraph, EndCell,
         StartCell ''FGR-ChildName'' 3, StartParagraph ''FGR-ChildText'',
         WriteText ''Carl'' None, EndParagraph, EndCell,
         EndRow]
        @ dump_child_event plain sample_db ''FGR-TextChild2'' ''Marriage''
            (Some (happening MARRIAGE ''1995'')))
   \<and> family_events sample_db (f_event_ref_list F2)
        = [(\<lparr> ref = ''m3'', role = WITNESS \<rparr>, happening MARRIAGE ''1995'')]
   \<and> find_mrg sample_db (f_event_ref_list F2) = Inr None"
proof (intro conjI allI impI)
  fix out person k
  assume ok: "dump_child c opts db index person_handle = Inr out"
    and chi: "incChiMar opts"
    and person: "db_people db person_handle = Some person"
    and k: "k < length (p_family_handle_list person)"
  from child_family_at [OF ok chi person k] obtain family mrg head earlier srows after where
    fam: "db_families db (p_family_handle_list person ! k) = Some family"
    and mrg: "find_child_mrg db (f_event_ref_list family) = Inr mrg"
    and after: "dump_child_families c opts db person_handle (length (p_family_handle_list person))
        (Suc k) (drop (Suc k) (p_family_handle_list person)) = Inr after"
    and out: "out = head @ earlier @ srows
        @ (case mrg of
             None \<Rightarrow> []
           | Some m \<Rightarrow> dump_child_event c db
               (if Suc k = length (p_family_handle_list person)
                then ''FGR-TextChild2'' else ''FGR-TextChild1'')
               (sgettext c ''Marriage'') (Some m))
        @ after"
    by blast
  from find_child_mrg_first [OF mrg] out
  have "out = (head @ earlier @ srows)
            @ (case map_option snd (find (\<lambda>(event_ref, event). ev_type event = MARRIAGE)
                      (family_events db (f_event_ref_list family))) of
                 None \<Rightarrow> []
               | Some m \<Rightarrow> dump_child_event c db
                   (if Suc k = length (p_family_handle_list person)
                    then ''FGR-TextChild2'' else ''FGR-TextChild1'')
                   (sgettext c ''Marriage'') (Some m))
            @ after"
    by simp
  with fam after show "\<exists>family before after.
          db_families db (p_family_handle_list person ! k) = Some family
        \<and> dump_child_families c opts db person_handle (length (p_family_handle_list person))
             (Suc k) (drop (Suc k) (p_family_handle_list person)) = Inr after
        \<and> out = before
            @ (case map_option snd (find (\<lambda>(event_ref, event). ev_type event = MARRIAGE)
                      (family_events db (f_event_ref_list family))) of
                 None \<Rightarrow> []
               | Some m \<Rightarrow> dump_child_event c db
                   (if Suc k = length (p_family_handle_list person)
                    then ''FGR-TextChild2'' else ''FGR-TextChild1'')
                   (sgettext c ''Marriage'') (Some m))
            @ after"
    by blast
next
  show "dump_child plain flags sample_db 1 ''C'' = Inr (
        [StartRow,
         StartCell ''FGR-TextChild2'' 1, StartParagraph ''FGR-ChildText'',
         WriteText ''1M'' None, EndParagraph, EndCell,
         StartCell ''FGR-ChildName'' 3, StartParagraph ''FGR-ChildText'',
         WriteText ''Carl'' None, EndParagraph, EndCell,
         EndRow]
        @ dump_child_event plain sample_db ''FGR-TextChild2'' ''Marriage''
            (Some (happening MARRIAGE ''1995'')))"
    by code_simp
next
  show "family_events sample_db (f_event_ref_list F2)
        = [(\<lparr> ref = ''m3'', role = WITNESS \<rparr>, happening MARRIAGE ''1995'')]"
    by (simp add: F2_def fam_def sample_db_def events_of_def)
next
  show "find_mrg sample_db (f_event_ref_list F2) = Inr None"
    by code_simp
qed

theorem child_marriage_event_witness:
  "incChiMar flags
   \<and> db_people sample_db ''C'' = Some (named ''Carl'' MALE [''F2''])
   \<and> (\<exists>out before after.
        dump_child plain flags sample_db 1 ''C'' = Inr out
      \<and> out = before
          @ dump_child_event plain sample_db ''FGR-TextChild2'' ''Marriage''
              (Some (happening MARRIAGE ''1995''))
          @ after)"
proof -
  have chi: "incChiMar flags"
    by (simp add: flags_def)
  have person: "db_people sample_db ''C'' = Some (named ''Carl'' MALE [''F2''])"
    by (simp add: sample_db_def people_of_def)
  have k: "0 < length (p_family_handle_list (named ''Carl'' MALE [''F2'']))"
    by (simp add: named_def)
  have "\<not> isl (dump_child plain flags sample_db 1 ''C'')"
    by code_simp
  then obtain out where ok: "dump_child plain flags sample_db 1 ''C'' = Inr out"
    by (cases "dump_child plain flags sample_db 1 ''C''") simp_all
  have fam: "db_families sample_db ''F2'' = Some F2"
    by (simp add: sample_db_def families_of_def)
  have evs: "family_events sample_db (f_event_ref_list F2)
        = [(\<lparr> ref = ''m3'', role = WITNESS \<rparr>, happening MARRIAGE ''1995'')]"
    by (simp add: F2_def fam_def sample_db_def events_of_def)
  have ty: "ev_type (happening MARRIAGE ''1995'') = MARRIAGE"
    by (simp add: happening_def)
  have tr: "sgettext plain ''Marriage'' = ''Marriage''"
    by (simp add: plain_def untranslated_def)
  from child_marriage_event [of plain flags sample_db 1 "''C''", THEN conjunct1,
      rule_format, OF ok chi person k]
  obtain family before after where
    "db_families sample_db (p_family_handle_list (named ''Carl'' MALE [''F2'']) ! 0) = Some family"
    and o: "out = before
            @ (case map_option snd (find (\<lambda>(event_ref, event). ev_type event = MARRIAGE)
                      (family_events sample_db (f_event_ref_list family))) of
                 None \<Rightarrow> []
               | Some m \<Rightarrow> dump_child_event plain sample_db
                   (if Suc 0 = length (p_family_handle_list (named ''Carl'' MALE [''F2'']))
                    then ''FGR-TextChild2'' else ''FGR-TextChild1'')
                   (sgettext plain ''Marriage'') (Some m))
            @ after"
    by blast
  then have "family = F2"
    by (simp add: named_def fam)
  with o have "out = before
          @ dump_child_event plain sample_db ''FGR-TextChild2'' ''Marriage''
              (Some (happening MARRIAGE ''1995''))
          @ after"
    by (simp add: named_def evs tr ty)
  then have "\<exists>before after. out = before
          @ dump_child_event plain sample_db ''FGR-TextChild2'' ''Marriage''
              (Some (happening MARRIAGE ''1995''))
          @ after"
    by blast
  with chi person ok show ?thesis by blast
qed




subsection \<open>Block routines\<close>

lemma block_only_Inr [simp]: "block_only (Inr out) \<longleftrightarrow> list_all block_call out"
  by (simp add: block_only_def)

lemma block_only_Inl [simp]: "block_only (Inl e)"
  by (simp add: block_only_def)

lemma block_only_bind:
  "(\<And>x. m = Inr x \<Longrightarrow> block_only (f x)) \<Longrightarrow> block_only (bind_result m f)"
  by (cases m) simp_all

lemma block_only_seqs:
  "(\<And>m. m \<in> set ms \<Longrightarrow> block_only m) \<Longrightarrow> block_only (seqs ms)"
proof (induction ms)
  case Nil
  show ?case by simp
next
  case (Cons m ms)
  then have "block_only m" and "block_only (seqs ms)"
    by simp_all
  then show ?case
    by (cases m; cases "seqs ms") simp_all
qed

lemma block_only_seqs_map:
  "(\<And>x. x \<in> set xs \<Longrightarrow> block_only (f x)) \<Longrightarrow> block_only (seqs (map f xs))"
  by (rule block_only_seqs) auto

lemma block_only_if:
  "(b \<Longrightarrow> block_only x) \<Longrightarrow> (\<not> b \<Longrightarrow> block_only y) \<Longrightarrow> block_only (if b then x else y)"
  by simp

lemma block_dump_parent_line: "list_all block_call (dump_parent_line name text)"
  by (simp add: dump_parent_line_def)

lemma block_dump_parent_noteline: "list_all block_call (dump_parent_noteline name note)"
  by (simp add: dump_parent_noteline_def)

lemma block_parent_row: "list_all block_call (parent_row label text mark)"
  by (simp add: parent_row_def)

lemma block_dump_child_event: "list_all block_call (dump_child_event c db text name event)"
  by (simp add: dump_child_event_def split: prod.splits)

lemma block_dump_parent_event: "block_only (dump_parent_event c opts db name event)"
  unfolding dump_parent_event_def
  by (rule block_only_bind) (auto split: prod.splits)

lemma block_dump_parent_parents: "block_only (dump_parent_parents c opts db person)"
  unfolding dump_parent_parents_def
  by (rule block_only_bind)
     (auto simp: block_dump_parent_line block_parent_row split: prod.splits)

lemma block_dump_parent: "block_only (dump_parent c opts db title person_handle)"
  unfolding dump_parent_def
  by (intro block_only_if block_only_bind block_only_seqs)
     (auto simp: block_dump_parent_event block_dump_parent_parents block_dump_parent_line
        block_dump_parent_noteline
        intro!: block_only_seqs_map block_only_bind)

lemma block_dump_marriage: "block_only (dump_marriage c opts db family_opt)"
  unfolding dump_marriage_def
  by (cases family_opt)
     (auto simp: block_dump_parent_event block_dump_parent_line block_dump_parent_noteline
        intro!: block_only_seqs block_only_seqs_map block_only_bind split: option.splits)

lemma block_dump_child_families:
  "block_only (dump_child_families c opts db person_handle families index fhs)"
proof (induction fhs arbitrary: index)
  case Nil
  show ?case by simp
next
  case (Cons fh fhs)
  show ?case
    unfolding dump_child_families.simps
    by (rule block_only_seqs)
       (auto simp: Cons block_dump_child_event
          intro!: block_only_seqs block_only_bind)
qed

lemma block_dump_child: "block_only (dump_child c opts db index person_handle)"
  unfolding dump_child_def
  by (intro block_only_bind block_only_seqs)
     (auto simp: block_dump_child_event block_dump_child_families intro!: block_only_bind)

lemma block_dump_children: "block_only (dump_children c opts db index refs)"
proof (induction refs arbitrary: index)
  case Nil
  show ?case by simp
next
  case (Cons r refs)
  show ?case
    unfolding dump_children.simps
    by (rule block_only_seqs) (auto simp: Cons block_dump_child)
qed

subsection \<open>The family section\<close>

lemma seqs_opt_Cons_eq:
  "seqs_opt (x # rest) = Some (Inr out) \<longleftrightarrow>
   (\<exists>a b. x = Some (Inr a) \<and> seqs_opt rest = Some (Inr b) \<and> out = a @ b)"
proof (cases x)
  case None
  then show ?thesis by simp
next
  case (Some m)
  show ?thesis
  proof (cases m)
    case (Inl e)
    with Some show ?thesis by simp
  next
    case (Inr a)
    with Some show ?thesis
      by (auto split: option.splits sum.splits)
  qed
qed

lemma seqs_opt_Nil_eq: "seqs_opt [] = Some (Inr out) \<longleftrightarrow> out = []"
  by auto

text \<open>The inner loop of the recursion: one page break and one family section
  for every family of the child other than the current one.\<close>

lemma descend_child:
  "seqs_opt (map (\<lambda>child_family_handle.
       if child_family_handle \<noteq> family_handle then
         seqs_opt [Some (Inr [PageBreak]), sub child_family_handle]
       else Some (Inr [])) hs) = Some (Inr out) \<Longrightarrow>
   \<exists>ss. list_all2 (\<lambda>h s. sub h = Some (Inr s)) (filter (\<lambda>h. h \<noteq> family_handle) hs) ss
     \<and> out = concat (map (\<lambda>s. PageBreak # s) ss)"
proof (induction hs arbitrary: out)
  case Nil
  then show ?case by simp
next
  case (Cons h hs)
  from Cons.prems obtain a b where
    a: "(if h \<noteq> family_handle then seqs_opt [Some (Inr [PageBreak]), sub h]
         else Some (Inr [])) = Some (Inr a)"
    and b: "seqs_opt (map (\<lambda>child_family_handle.
       if child_family_handle \<noteq> family_handle then
         seqs_opt [Some (Inr [PageBreak]), sub child_family_handle]
       else Some (Inr [])) hs) = Some (Inr b)"
    and out: "out = a @ b"
    by (auto simp: seqs_opt_Cons_eq)
  from Cons.IH [OF b] obtain ss where
    ss: "list_all2 (\<lambda>h s. sub h = Some (Inr s)) (filter (\<lambda>h. h \<noteq> family_handle) hs) ss"
    and bs: "b = concat (map (\<lambda>s. PageBreak # s) ss)"
    by blast
  show ?case
  proof (cases "h = family_handle")
    case True
    with a have "a = []" by simp
    with True ss bs out show ?thesis by auto
  next
    case False
    with a obtain s where s: "sub h = Some (Inr s)" and as: "a = PageBreak # s"
      by (auto simp: seqs_opt_Cons_eq seqs_opt_Nil_eq simp del: seqs_opt.simps)
    from False s ss
    have "list_all2 (\<lambda>h s. sub h = Some (Inr s)) (filter (\<lambda>h. h \<noteq> family_handle) (h # hs)) (s # ss)"
      by simp
    moreover from as bs out have "out = concat (map (\<lambda>s. PageBreak # s) (s # ss))"
      by simp
    ultimately show ?thesis by blast
  qed
qed

text \<open>The outer loop of the recursion, over the children.\<close>

lemma descend_children:
  "seqs_opt (map (\<lambda>child_ref.
       case get_person_from_handle db (cref child_ref) of
         Inl e \<Rightarrow> Some (Inl e)
       | Inr child \<Rightarrow>
           seqs_opt (map (\<lambda>child_family_handle.
               if child_family_handle \<noteq> family_handle then
                 seqs_opt [Some (Inr [PageBreak]), sub child_family_handle]
               else Some (Inr []))
             (p_family_handle_list child))) refs) = Some (Inr out) \<Longrightarrow>
   \<exists>children ss.
       map (\<lambda>child_ref. db_people db (cref child_ref)) refs = map Some children
     \<and> list_all2 (\<lambda>h s. sub h = Some (Inr s))
         (filter (\<lambda>h. h \<noteq> family_handle) (concat (map p_family_handle_list children))) ss
     \<and> out = concat (map (\<lambda>s. PageBreak # s) ss)"
proof (induction refs arbitrary: out)
  case Nil
  then show ?case by simp
next
  case (Cons r refs)
  from Cons.prems obtain a b where
    a: "(case get_person_from_handle db (cref r) of
         Inl e \<Rightarrow> Some (Inl e)
       | Inr child \<Rightarrow>
           seqs_opt (map (\<lambda>child_family_handle.
               if child_family_handle \<noteq> family_handle then
                 seqs_opt [Some (Inr [PageBreak]), sub child_family_handle]
               else Some (Inr []))
             (p_family_handle_list child))) = Some (Inr a)"
    and b: "seqs_opt (map (\<lambda>child_ref.
       case get_person_from_handle db (cref child_ref) of
         Inl e \<Rightarrow> Some (Inl e)
       | Inr child \<Rightarrow>
           seqs_opt (map (\<lambda>child_family_handle.
               if child_family_handle \<noteq> family_handle then
                 seqs_opt [Some (Inr [PageBreak]), sub child_family_handle]
               else Some (Inr []))
             (p_family_handle_list child))) refs) = Some (Inr b)"
    and out: "out = a @ b"
    by (auto simp: seqs_opt_Cons_eq)
  from a obtain child where child: "db_people db (cref r) = Some child"
    and inner: "seqs_opt (map (\<lambda>child_family_handle.
               if child_family_handle \<noteq> family_handle then
                 seqs_opt [Some (Inr [PageBreak]), sub child_family_handle]
               else Some (Inr []))
             (p_family_handle_list child)) = Some (Inr a)"
    by (auto simp: get_person_from_handle_def split: option.splits)
  from descend_child [OF inner] obtain sa where
    sa: "list_all2 (\<lambda>h s. sub h = Some (Inr s))
           (filter (\<lambda>h. h \<noteq> family_handle) (p_family_handle_list child)) sa"
    and a': "a = concat (map (\<lambda>s. PageBreak # s) sa)"
    by blast
  from Cons.IH [OF b] obtain children sb where
    ch: "map (\<lambda>child_ref. db_people db (cref child_ref)) refs = map Some children"
    and sb: "list_all2 (\<lambda>h s. sub h = Some (Inr s))
         (filter (\<lambda>h. h \<noteq> family_handle) (concat (map p_family_handle_list children))) sb"
    and b': "b = concat (map (\<lambda>s. PageBreak # s) sb)"
    by blast
  from child ch
  have 1: "map (\<lambda>child_ref. db_people db (cref child_ref)) (r # refs) = map Some (child # children)"
    by simp
  from sa sb
  have 2: "list_all2 (\<lambda>h s. sub h = Some (Inr s))
         (filter (\<lambda>h. h \<noteq> family_handle) (concat (map p_family_handle_list (child # children))))
         (sa @ sb)"
    by (simp add: list_all2_appendI)
  from a' b' out have 3: "out = concat (map (\<lambda>s. PageBreak # s) (sa @ sb))"
    by simp
  from 1 2 3 show ?case by blast
qed

text \<open>The statements of \<open>dump_family\<close> in a run that returns.\<close>

lemma dump_family_shape:
  assumes "dump_family (Suc depth) c opts db family_handle generation = Some (Inr out)"
  shows "\<exists>title family husband marriage wife children subs.
      (if recursive opts \<and> generations opts
       then py_format (sgettext c ''Family Group Report - Generation %d'')
              (Positional [FInt generation])
       else Inr (sgettext c ''Family Group Report'')) = Inr title
    \<and> db_families db family_handle = Some family
    \<and> dump_parent c opts db (sgettext c ''Husband'') (f_father_handle family) = Inr husband
    \<and> (if incParMar opts then
          seqs [dump_marriage c opts db (Some family),
                Inr [StartParagraph ''FGR-blank'', EndParagraph]]
        else Inr []) = Inr marriage
    \<and> dump_parent c opts db (sgettext c ''Wife'') (f_mother_handle family) = Inr wife
    \<and> (if length (f_child_ref_list family) > 0 then
          seqs [
            Inr [StartParagraph ''FGR-blank'',
                 EndParagraph,
                 StartTable ''FGR-Children'' ''FGR-ChildTable'',
                 StartRow,
                 StartCell ''FGR-ParentHead'' 4,
                 StartParagraph ''FGR-ParentName'',
                 WriteText (sgettext c ''Children'') None,
                 EndParagraph,
                 EndCell,
                 EndRow],
            dump_children c opts db 1 (f_child_ref_list family),
            Inr [EndTable]]
        else Inr []) = Inr children
    \<and> (if recursive opts then
          seqs_opt (map (\<lambda>child_ref.
              case get_person_from_handle db (cref child_ref) of
                Inl e \<Rightarrow> Some (Inl e)
              | Inr child \<Rightarrow>
                  seqs_opt (map (\<lambda>child_family_handle.
                      if child_family_handle \<noteq> family_handle then
                        seqs_opt [
                          Some (Inr [PageBreak]),
                          dump_family depth c opts db child_family_handle (generation + 1)]
                      else Some (Inr []))
                    (p_family_handle_list child)))
            (f_child_ref_list family))
        else Some (Inr [])) = Some (Inr subs)
    \<and> out = [StartParagraph ''FGR-Title'',
             WriteText title (Some (IndexMark title INDEX_TYPE_TOC 1)),
             EndParagraph]
            @ husband @ [StartParagraph ''FGR-blank'', EndParagraph]
            @ marriage @ wife @ children @ subs"
proof -
  from assms obtain family where fam: "db_families db family_handle = Some family"
    by (auto simp: seqs_opt_Cons_eq get_family_from_handle_def simp del: seqs_opt.simps
        split: option.splits split del: if_split)
  with assms show ?thesis
    by (clarsimp simp: seqs_opt_Cons_eq seqs_opt_Nil_eq bind_result_eq_Inr
        get_family_from_handle_def simp del: seqs_opt.simps split del: if_split)
qed

lemma block_call_facts:
  assumes "list_all block_call xs"
  shows "count_list xs (StartParagraph ''FGR-blank'') = 0"
    and "PageBreak \<notin> set xs"
    and "StartTable name ''FGR-ChildTable'' \<notin> set xs"
  using assms by (induction xs) auto

lemma block_only_D: "block_only r \<Longrightarrow> r = Inr out \<Longrightarrow> list_all block_call out"
  by simp

lemma seqs_opt_Some5:
  "seqs_opt [Some t, seqs_opt [Some h, Some (Inr b), Some m, Some w, Some (Inr []), Some (Inr [])]]
   = Some (seqs [t, h, Inr b, m, w])"
  by (cases t; cases h; cases m; cases w) simp_all

lemma seqs_opt_if_Nil: "(if b then seqs_opt [] else Some (Inr [])) = Some (Inr [])"
  by simp

text \<open>
  Claim C5.  For a family whose child reference list is empty, \<open>dump_family\<close>
  is the sequence of the title, the husband block, a blank paragraph, the
  marriage part and the wife block, and nothing else: no blank paragraph before
  a children table, no header row, no child rows.  In a run that returns, no
  table in the style of the children table is started, the blank paragraphs are
  the one after the husband and the one after the marriage block, and there is
  no page break.
\<close>

theorem no_children_no_table:
  assumes fam: "db_families db family_handle = Some family"
    and none: "f_child_ref_list family = []"
  shows "dump_family (Suc depth) c opts db family_handle generation =
      Some (seqs [
        bind_result
          (if recursive opts \<and> generations opts
           then py_format (sgettext c ''Family Group Report - Generation %d'')
                  (Positional [FInt generation])
           else Inr (sgettext c ''Family Group Report''))
          (\<lambda>title. Inr
             [StartParagraph ''FGR-Title'',
              WriteText title (Some (IndexMark title INDEX_TYPE_TOC 1)),
              EndParagraph]),
        dump_parent c opts db (sgettext c ''Husband'') (f_father_handle family),
        Inr [StartParagraph ''FGR-blank'', EndParagraph],
        (if incParMar opts then
           seqs [dump_marriage c opts db (Some family),
                 Inr [StartParagraph ''FGR-blank'', EndParagraph]]
         else Inr []),
        dump_parent c opts db (sgettext c ''Wife'') (f_mother_handle family)])
    \<and> (\<forall>out. dump_family (Suc depth) c opts db family_handle generation = Some (Inr out) \<longrightarrow>
          (\<forall>name. StartTable name ''FGR-ChildTable'' \<notin> set out)
        \<and> count_list out (StartParagraph ''FGR-blank'') = (if incParMar opts then 2 else 1)
        \<and> PageBreak \<notin> set out)"
proof (rule conjI)
  from fam none
  show "dump_family (Suc depth) c opts db family_handle generation =
      Some (seqs [
        bind_result
          (if recursive opts \<and> generations opts
           then py_format (sgettext c ''Family Group Report - Generation %d'')
                  (Positional [FInt generation])
           else Inr (sgettext c ''Family Group Report''))
          (\<lambda>title. Inr
             [StartParagraph ''FGR-Title'',
              WriteText title (Some (IndexMark title INDEX_TYPE_TOC 1)),
              EndParagraph]),
        dump_parent c opts db (sgettext c ''Husband'') (f_father_handle family),
        Inr [StartParagraph ''FGR-blank'', EndParagraph],
        (if incParMar opts then
           seqs [dump_marriage c opts db (Some family),
                 Inr [StartParagraph ''FGR-blank'', EndParagraph]]
         else Inr []),
        dump_parent c opts db (sgettext c ''Wife'') (f_mother_handle family)])"
    by (simp add: get_family_from_handle_def seqs_opt_Some5 seqs_opt_if_Nil
        del: seqs_opt.simps seqs.simps split del: if_split cong: if_cong)
next
  show "\<forall>out. dump_family (Suc depth) c opts db family_handle generation = Some (Inr out) \<longrightarrow>
          (\<forall>name. StartTable name ''FGR-ChildTable'' \<notin> set out)
        \<and> count_list out (StartParagraph ''FGR-blank'') = (if incParMar opts then 2 else 1)
        \<and> PageBreak \<notin> set out"
  proof (rule allI, rule impI)
  fix out
  assume ok: "dump_family (Suc depth) c opts db family_handle generation = Some (Inr out)"
  from dump_family_shape [OF ok] fam none
  obtain title husband marriage wife where
    husband: "dump_parent c opts db (sgettext c ''Husband'') (f_father_handle family) = Inr husband"
    and marriage: "(if incParMar opts then
          seqs [dump_marriage c opts db (Some family),
                Inr [StartParagraph ''FGR-blank'', EndParagraph]]
        else Inr []) = Inr marriage"
    and wife: "dump_parent c opts db (sgettext c ''Wife'') (f_mother_handle family) = Inr wife"
    and out: "out = [StartParagraph ''FGR-Title'',
             WriteText title (Some (IndexMark title INDEX_TYPE_TOC 1)),
             EndParagraph]
            @ husband @ [StartParagraph ''FGR-blank'', EndParagraph]
            @ marriage @ wife"
    by (auto split: if_splits)
  from husband have h: "list_all block_call husband"
    by (rule block_only_D [OF block_dump_parent])
  from wife have w: "list_all block_call wife"
    by (rule block_only_D [OF block_dump_parent])
  have "\<exists>m. list_all block_call m
      \<and> marriage = (if incParMar opts then m @ [StartParagraph ''FGR-blank'', EndParagraph] else [])"
  proof (cases "incParMar opts")
    case True
    with marriage obtain m0 where m0: "dump_marriage c opts db (Some family) = Inr m0"
      and "marriage = m0 @ [StartParagraph ''FGR-blank'', EndParagraph]"
      by (auto simp: seqs_eq_Inr_Cons)
    with True block_only_D [OF block_dump_marriage m0] show ?thesis
      by auto
  next
    case False
    with marriage have "marriage = []"
      by simp
    with False show ?thesis
      by (intro exI [of _ "[]"]) simp
  qed
  then obtain m where m: "list_all block_call m"
    and mar: "marriage = (if incParMar opts then m @ [StartParagraph ''FGR-blank'', EndParagraph] else [])"
    by blast
  from h w m out mar
  show "(\<forall>name. StartTable name ''FGR-ChildTable'' \<notin> set out)
        \<and> count_list out (StartParagraph ''FGR-blank'') = (if incParMar opts then 2 else 1)
        \<and> PageBreak \<notin> set out"
    by (auto simp: block_call_facts)
  qed
qed


theorem no_children_no_table_witness:
  "db_families sample_db ''F5'' = Some F5
   \<and> f_child_ref_list F5 = []
   \<and> incParMar flags
   \<and> (\<exists>out. dump_family (Suc 0) plain flags sample_db ''F5'' 1 = Some (Inr out)
        \<and> count_list out (StartParagraph ''FGR-blank'') = 2
        \<and> PageBreak \<notin> set out
        \<and> (\<forall>name. StartTable name ''FGR-ChildTable'' \<notin> set out))"
proof -
  have fam: "db_families sample_db ''F5'' = Some F5"
    by (simp add: sample_db_def families_of_def)
  have none: "f_child_ref_list F5 = []"
    by (simp add: F5_def fam_def)
  have mar: "incParMar flags"
    by (simp add: flags_def)
  have "(case dump_family (Suc 0) plain flags sample_db ''F5'' 1 of
           Some (Inr out) \<Rightarrow> True | _ \<Rightarrow> False)"
    by code_simp
  then obtain out where ok: "dump_family (Suc 0) plain flags sample_db ''F5'' 1 = Some (Inr out)"
    by (auto split: option.splits sum.splits)
  from no_children_no_table [OF fam none, of 0 plain flags 1] ok mar
  have "count_list out (StartParagraph ''FGR-blank'') = 2
        \<and> PageBreak \<notin> set out
        \<and> (\<forall>name. StartTable name ''FGR-ChildTable'' \<notin> set out)"
    by simp
  with fam none mar ok show ?thesis by blast
qed

subsection \<open>The children table\<close>

lemma format_unknown: "py_format ''%dU'' (Positional [FInt i]) = Inr (str_int i @ ''U'')"
  by (simp add: py_format_def convert_def)

lemma dump_children_split:
  "dump_children c opts db index refs = Inr rows \<Longrightarrow>
   \<exists>before rest.
     dump_children c opts db index (take k refs) = Inr before
   \<and> dump_children c opts db (index + int k) (drop k refs) = Inr rest
   \<and> rows = before @ rest"
proof (induction refs arbitrary: index k rows)
  case Nil
  then show ?case by simp
next
  case (Cons r refs)
  show ?case
  proof (cases k)
    case 0
    with Cons.prems show ?thesis by simp
  next
    case (Suc j)
    from Cons.prems obtain g after where
      g: "dump_child c opts db index (cref r) = Inr g"
      and after: "dump_children c opts db (index + 1) refs = Inr after"
      and rows: "rows = g @ after"
      by (auto simp: seqs_eq_Inr_Cons)
    from Cons.IH [OF after, of j] obtain before rest where
      b: "dump_children c opts db (index + 1) (take j refs) = Inr before"
      and r: "dump_children c opts db (index + 1 + int j) (drop j refs) = Inr rest"
      and a: "after = before @ rest"
      by blast
    from g b have 1: "dump_children c opts db index (take (Suc j) (r # refs)) = Inr (g @ before)"
      by (auto simp: seqs_eq_Inr_Cons)
    have "index + 1 + int j = index + int (Suc j)"
      by simp
    with r have 2: "dump_children c opts db (index + int (Suc j)) (drop (Suc j) (r # refs)) = Inr rest"
      by simp
    from rows a have 3: "rows = (g @ before) @ rest"
      by simp
    from 1 2 3 Suc show ?thesis
      by blast
  qed
qed

lemma dump_child_label:
  assumes "dump_child c opts db index person_handle = Inr chunk"
  shows "\<exists>person style label rest.
      db_people db person_handle = Some person
    \<and> chunk = [StartRow, StartCell style 1, StartParagraph ''FGR-ChildText'',
               WriteText label None] @ rest
    \<and> (if p_gender person = MALE
          then Inr (str_int index @ sgettext c ''acronym for male|M'')
        else if p_gender person = FEMALE
          then Inr (str_int index @ sgettext c ''acronym for female|F'')
        else py_format (sgettext c ''acronym for unknown|%dU'') (Positional [FInt index]))
       = Inr label"
proof -
  from assms obtain person where person: "db_people db person_handle = Some person"
    by (auto simp: dump_child_def bind_result_eq_Inr get_person_from_handle_def
        split: option.splits)
  with assms show ?thesis
    by (clarsimp simp: dump_child_def bind_result_eq_Inr get_person_from_handle_def
        seqs_eq_Inr_Cons split del: if_split)
qed

text \<open>
  Claim C6.  In a run of \<open>dump_family\<close> that returns, for a family with
  children, the children table is the header row, then the groups of the
  children in the order of the child reference list, then the end of the table.
  The group of the child at position \<open>k\<close> (counted from 0) is written by
  \<open>dump_child\<close> with index \<open>k + 1\<close>, after the groups of the children before it,
  and the first text of the group is the label: the index followed by the
  acronym for male, the index followed by the acronym for female, or, for an
  unknown gender, the message \<open>%dU\<close> filled with the index, which without a
  translation is the index followed by U.
\<close>

theorem child_index_labels:
  assumes ok: "dump_family (Suc depth) c opts db family_handle generation = Some (Inr out)"
    and fam: "db_families db family_handle = Some family"
    and k: "k < length (f_child_ref_list family)"
  shows "\<exists>pre before chunk after post person style label rest.
      out = pre
        @ [StartParagraph ''FGR-blank'', EndParagraph,
           StartTable ''FGR-Children'' ''FGR-ChildTable'',
           StartRow,
           StartCell ''FGR-ParentHead'' 4, StartParagraph ''FGR-ParentName'',
           WriteText (sgettext c ''Children'') None, EndParagraph, EndCell,
           EndRow]
        @ before @ chunk @ after @ [EndTable] @ post
    \<and> dump_children c opts db 1 (take k (f_child_ref_list family)) = Inr before
    \<and> dump_child c opts db (1 + int k) (cref (f_child_ref_list family ! k)) = Inr chunk
    \<and> dump_children c opts db (1 + int k + 1) (drop (Suc k) (f_child_ref_list family)) = Inr after
    \<and> db_people db (cref (f_child_ref_list family ! k)) = Some person
    \<and> chunk = [StartRow, StartCell style 1, StartParagraph ''FGR-ChildText'',
               WriteText label None] @ rest
    \<and> (p_gender person = MALE \<longrightarrow>
         label = str_int (1 + int k) @ sgettext c ''acronym for male|M'')
    \<and> (p_gender person = FEMALE \<longrightarrow>
         label = str_int (1 + int k) @ sgettext c ''acronym for female|F'')
    \<and> (p_gender person = UNKNOWN \<longrightarrow>
         py_format (sgettext c ''acronym for unknown|%dU'') (Positional [FInt (1 + int k)])
           = Inr label
         \<and> (sgettext c ''acronym for unknown|%dU'' = ''%dU'' \<longrightarrow>
              label = str_int (1 + int k) @ ''U''))"
proof -
  from dump_family_shape [OF ok]
  obtain title family' husband marriage wife children subs where
    fam': "db_families db family_handle = Some family'"
    and children: "(if length (f_child_ref_list family') > 0 then
          seqs [
            Inr [StartParagraph ''FGR-blank'',
                 EndParagraph,
                 StartTable ''FGR-Children'' ''FGR-ChildTable'',
                 StartRow,
                 StartCell ''FGR-ParentHead'' 4,
                 StartParagraph ''FGR-ParentName'',
                 WriteText (sgettext c ''Children'') None,
                 EndParagraph,
                 EndCell,
                 EndRow],
            dump_children c opts db 1 (f_child_ref_list family'),
            Inr [EndTable]]
        else Inr []) = Inr children"
    and out0: "out = [StartParagraph ''FGR-Title'',
             WriteText title (Some (IndexMark title INDEX_TYPE_TOC 1)),
             EndParagraph]
            @ husband @ [StartParagraph ''FGR-blank'', EndParagraph]
            @ marriage @ wife @ children @ subs"
    by blast
  from fam fam' have same: "family' = family"
    by simp
  from k have "f_child_ref_list family \<noteq> []"
    by auto
  with children same have "seqs [
            Inr [StartParagraph ''FGR-blank'',
                 EndParagraph,
                 StartTable ''FGR-Children'' ''FGR-ChildTable'',
                 StartRow,
                 StartCell ''FGR-ParentHead'' 4,
                 StartParagraph ''FGR-ParentName'',
                 WriteText (sgettext c ''Children'') None,
                 EndParagraph,
                 EndCell,
                 EndRow],
            dump_children c opts db 1 (f_child_ref_list family),
            Inr [EndTable]] = Inr children"
    by (simp del: seqs.simps)
  then obtain rows where
    rows: "dump_children c opts db 1 (f_child_ref_list family) = Inr rows"
    and ch: "children = [StartParagraph ''FGR-blank'', EndParagraph,
           StartTable ''FGR-Children'' ''FGR-ChildTable'',
           StartRow,
           StartCell ''FGR-ParentHead'' 4, StartParagraph ''FGR-ParentName'',
           WriteText (sgettext c ''Children'') None, EndParagraph, EndCell,
           EndRow] @ rows @ [EndTable]"
    by (auto simp: seqs_eq_Inr_Cons seqs_Nil_eq simp del: seqs.simps)
  from out0 ch have out: "out = ([StartParagraph ''FGR-Title'',
             WriteText title (Some (IndexMark title INDEX_TYPE_TOC 1)),
             EndParagraph]
            @ husband @ [StartParagraph ''FGR-blank'', EndParagraph]
            @ marriage @ wife)
        @ [StartParagraph ''FGR-blank'', EndParagraph,
           StartTable ''FGR-Children'' ''FGR-ChildTable'',
           StartRow,
           StartCell ''FGR-ParentHead'' 4, StartParagraph ''FGR-ParentName'',
           WriteText (sgettext c ''Children'') None, EndParagraph, EndCell,
           EndRow]
        @ rows @ [EndTable] @ subs"
    by simp
  from dump_children_split [OF rows, of k] obtain before rest where
    before: "dump_children c opts db 1 (take k (f_child_ref_list family)) = Inr before"
    and rest: "dump_children c opts db (1 + int k) (drop k (f_child_ref_list family)) = Inr rest"
    and split: "rows = before @ rest"
    by blast
  from k have "drop k (f_child_ref_list family)
      = f_child_ref_list family ! k # drop (Suc k) (f_child_ref_list family)"
    by (simp add: Cons_nth_drop_Suc)
  with rest obtain chunk after where
    chunk: "dump_child c opts db (1 + int k) (cref (f_child_ref_list family ! k)) = Inr chunk"
    and after: "dump_children c opts db (1 + int k + 1) (drop (Suc k) (f_child_ref_list family))
        = Inr after"
    and rest': "rest = chunk @ after"
    by (auto simp: seqs_eq_Inr_Cons)
  from dump_child_label [OF chunk] obtain person style label tail where
    person: "db_people db (cref (f_child_ref_list family ! k)) = Some person"
    and head: "chunk = [StartRow, StartCell style 1, StartParagraph ''FGR-ChildText'',
               WriteText label None] @ tail"
    and label: "(if p_gender person = MALE
          then Inr (str_int (1 + int k) @ sgettext c ''acronym for male|M'')
        else if p_gender person = FEMALE
          then Inr (str_int (1 + int k) @ sgettext c ''acronym for female|F'')
        else py_format (sgettext c ''acronym for unknown|%dU'') (Positional [FInt (1 + int k)]))
       = Inr label"
    by blast
  from label have male: "p_gender person = MALE \<longrightarrow>
         label = str_int (1 + int k) @ sgettext c ''acronym for male|M''"
    by auto
  from label have female: "p_gender person = FEMALE \<longrightarrow>
         label = str_int (1 + int k) @ sgettext c ''acronym for female|F''"
    by auto
  from label have unknown: "p_gender person = UNKNOWN \<longrightarrow>
         py_format (sgettext c ''acronym for unknown|%dU'') (Positional [FInt (1 + int k)])
           = Inr label
         \<and> (sgettext c ''acronym for unknown|%dU'' = ''%dU'' \<longrightarrow>
              label = str_int (1 + int k) @ ''U'')"
    by (auto simp: format_unknown)
  from out split rest'
  have "out = ([StartParagraph ''FGR-Title'',
             WriteText title (Some (IndexMark title INDEX_TYPE_TOC 1)),
             EndParagraph]
            @ husband @ [StartParagraph ''FGR-blank'', EndParagraph]
            @ marriage @ wife)
        @ [StartParagraph ''FGR-blank'', EndParagraph,
           StartTable ''FGR-Children'' ''FGR-ChildTable'',
           StartRow,
           StartCell ''FGR-ParentHead'' 4, StartParagraph ''FGR-ParentName'',
           WriteText (sgettext c ''Children'') None, EndParagraph, EndCell,
           EndRow]
        @ before @ chunk @ after @ [EndTable] @ subs"
    by simp
  with before chunk after person head male female unknown show ?thesis
    by blast
qed


theorem child_index_labels_witness:
  "db_families sample_db ''F1'' = Some F1
   \<and> 2 < length (f_child_ref_list F1)
   \<and> db_people sample_db ''E'' = Some (named ''Evan'' UNKNOWN [])
   \<and> (\<exists>out pre style rest.
        dump_family (Suc 0) plain flags sample_db ''F1'' 1 = Some (Inr out)
      \<and> out = pre @ [StartRow, StartCell style 1, StartParagraph ''FGR-ChildText'',
                     WriteText ''3U'' None] @ rest)"
proof -
  have fam: "db_families sample_db ''F1'' = Some F1"
    by (simp add: sample_db_def families_of_def)
  have k: "2 < length (f_child_ref_list F1)"
    by (simp add: F1_def fam_def)
  have evan: "db_people sample_db ''E'' = Some (named ''Evan'' UNKNOWN [])"
    by (simp add: sample_db_def people_of_def)
  have third: "cref (f_child_ref_list F1 ! 2) = ''E''"
    by (simp add: F1_def fam_def)
  have unknown: "p_gender (named ''Evan'' UNKNOWN []) = UNKNOWN"
    by (simp add: named_def)
  have tr: "sgettext plain ''acronym for unknown|%dU'' = ''%dU''"
    by (simp add: plain_def untranslated_def)
  have three: "str_int (1 + int 2) @ ''U'' = ''3U''"
    by (simp add: str_int_def digits.simps digit_char_def)
  have "(case dump_family (Suc 0) plain flags sample_db ''F1'' 1 of
           Some (Inr out) \<Rightarrow> True | _ \<Rightarrow> False)"
    by code_simp
  then obtain out where ok: "dump_family (Suc 0) plain flags sample_db ''F1'' 1 = Some (Inr out)"
    by (auto split: option.splits sum.splits)
  from child_index_labels [OF ok fam k]
  obtain pre before chunk after post person style label rest where
    out: "out = pre
        @ [StartParagraph ''FGR-blank'', EndParagraph,
           StartTable ''FGR-Children'' ''FGR-ChildTable'',
           StartRow,
           StartCell ''FGR-ParentHead'' 4, StartParagraph ''FGR-ParentName'',
           WriteText (sgettext plain ''Children'') None, EndParagraph, EndCell,
           EndRow]
        @ before @ chunk @ after @ [EndTable] @ post"
    and person: "db_people sample_db (cref (f_child_ref_list F1 ! 2)) = Some person"
    and chunk: "chunk = [StartRow, StartCell style 1, StartParagraph ''FGR-ChildText'',
               WriteText label None] @ rest"
    and label: "p_gender person = UNKNOWN \<longrightarrow>
         py_format (sgettext plain ''acronym for unknown|%dU'') (Positional [FInt (1 + int 2)])
           = Inr label
         \<and> (sgettext plain ''acronym for unknown|%dU'' = ''%dU'' \<longrightarrow>
              label = str_int (1 + int 2) @ ''U'')"
    by blast
  from person third evan have "person = named ''Evan'' UNKNOWN []"
    by simp
  with label unknown tr three have "label = ''3U''"
    by simp
  with out chunk have "out = (pre
        @ [StartParagraph ''FGR-blank'', EndParagraph,
           StartTable ''FGR-Children'' ''FGR-ChildTable'',
           StartRow,
           StartCell ''FGR-ParentHead'' 4, StartParagraph ''FGR-ParentName'',
           WriteText (sgettext plain ''Children'') None, EndParagraph, EndCell,
           EndRow]
        @ before)
      @ [StartRow, StartCell style 1, StartParagraph ''FGR-ChildText'',
         WriteText ''3U'' None] @ (rest @ after @ [EndTable] @ post)"
    by simp
  with fam k evan ok show ?thesis
    by blast
qed

subsection \<open>Returning, and the bound on the depth\<close>

text \<open>Without recursion one level of depth is enough: the renderer and the
  driver return, with the calls they made or with an exception.\<close>

lemma seqs_opt_eq_None:
  "seqs_opt (x # rest) = None \<longleftrightarrow>
   x = None \<or> ((\<exists>out. x = Some (Inr out)) \<and> seqs_opt rest = None)"
proof (cases x)
  case None
  then show ?thesis by simp
next
  case (Some m)
  then show ?thesis
    by (cases m) (auto split: option.splits sum.splits)
qed

lemma seqs_opt_Nil_returns: "seqs_opt [] \<noteq> None"
  by simp

lemma seqs_opt_map_returns:
  "(\<And>x. f x \<noteq> None) \<Longrightarrow> seqs_opt (map f xs) \<noteq> None"
  by (induction xs)
     (simp_all del: seqs_opt.simps not_None_eq add: seqs_opt_eq_None seqs_opt_Nil_returns)

lemma dump_family_returns:
  assumes "\<not> recursive opts"
  shows "dump_family (Suc depth) c opts db family_handle generation \<noteq> None"
proof (cases "get_family_from_handle db family_handle")
  case (Inl e)
  then show ?thesis
    by (simp del: seqs_opt.simps not_None_eq
        add: seqs_opt_eq_None seqs_opt_Nil_returns split del: if_split)
next
  case (Inr family)
  with assms show ?thesis
    by (simp del: seqs_opt.simps not_None_eq
        add: seqs_opt_eq_None seqs_opt_Nil_returns split del: if_split)
qed

lemma write_report_returns:
  assumes "\<not> recursive opts"
  shows "write_report (Suc depth) c opts filter_opt db \<noteq> None"
proof -
  have returns: "doc_effects (dump_family (Suc depth) c opts db h 1) \<noteq> None" for h
    using dump_family_returns [OF assms, of depth c db h 1]
    by (simp add: doc_effects_def del: dump_family.simps)
  define item where "item h =
      seqs_opt [doc_effects (dump_family (Suc depth) c opts db h 1),
                Some (Inr [Doc PageBreak]), Some (Inr [Step])]" for h
  from returns have "item h \<noteq> None" for h
    unfolding item_def
    by (simp del: seqs_opt.simps not_None_eq dump_family.simps
        add: seqs_opt_eq_None seqs_opt_Nil_returns)
  then have "seqs_opt (map item hs) \<noteq> None" for hs
    by (rule seqs_opt_map_returns)
  then show ?thesis
    unfolding item_def
    by (simp add: write_report_def Let_def del: seqs_opt.simps dump_family.simps not_None_eq)
qed

text \<open>A larger bound on the depth does not change a result.\<close>

lemma seqs_opt_mono:
  "list_all2 (\<lambda>a b. a = None \<or> a = b) xs ys \<Longrightarrow>
   seqs_opt xs = None \<or> seqs_opt xs = seqs_opt ys"
proof (induction xs ys rule: list_all2_induct)
  case Nil
  show ?case by simp
next
  case (Cons x xs y ys)
  show ?case
  proof (cases x)
    case None
    then show ?thesis by simp
  next
    case (Some m)
    with Cons.hyps have y: "y = Some m" by simp
    show ?thesis
    proof (cases m)
      case (Inl e)
      with Some y show ?thesis by simp
    next
      case (Inr out)
      from Cons.IH show ?thesis
      proof
        assume "seqs_opt xs = None"
        with Some Inr show ?thesis by simp
      next
        assume "seqs_opt xs = seqs_opt ys"
        with Some Inr y show ?thesis by simp
      qed
    qed
  qed
qed

lemma seqs_opt_map_mono:
  "(\<And>x. x \<in> set xs \<Longrightarrow> f x = None \<or> f x = g x) \<Longrightarrow>
   seqs_opt (map f xs) = None \<or> seqs_opt (map f xs) = seqs_opt (map g xs)"
  by (rule seqs_opt_mono) (simp add: list_all2_map1 list_all2_map2 list_all2_same)

lemma dump_family_deeper:
  "dump_family depth c opts db family_handle generation = None
   \<or> dump_family depth c opts db family_handle generation
     = dump_family (Suc depth) c opts db family_handle generation"
proof (induction depth arbitrary: family_handle generation)
  case 0
  show ?case by simp
next
  case (Suc depth)
  have inner: "seqs_opt [Some (Inr [PageBreak]), dump_family depth c opts db h g] = None
      \<or> seqs_opt [Some (Inr [PageBreak]), dump_family depth c opts db h g]
        = seqs_opt [Some (Inr [PageBreak]), dump_family (Suc depth) c opts db h g]" for h g
    using Suc.IH [of h g] by (intro seqs_opt_mono) simp
  have child: "seqs_opt (map (\<lambda>child_family_handle.
          if child_family_handle \<noteq> family_handle then
            seqs_opt [Some (Inr [PageBreak]),
                      dump_family depth c opts db child_family_handle (generation + 1)]
          else Some (Inr [])) hs) = None
      \<or> seqs_opt (map (\<lambda>child_family_handle.
          if child_family_handle \<noteq> family_handle then
            seqs_opt [Some (Inr [PageBreak]),
                      dump_family depth c opts db child_family_handle (generation + 1)]
          else Some (Inr [])) hs)
        = seqs_opt (map (\<lambda>child_family_handle.
          if child_family_handle \<noteq> family_handle then
            seqs_opt [Some (Inr [PageBreak]),
                      dump_family (Suc depth) c opts db child_family_handle (generation + 1)]
          else Some (Inr [])) hs)" for hs
    using inner by (intro seqs_opt_map_mono) auto
  have children: "seqs_opt (map (\<lambda>child_ref.
          case get_person_from_handle db (cref child_ref) of
            Inl e \<Rightarrow> Some (Inl e)
          | Inr child \<Rightarrow>
              seqs_opt (map (\<lambda>child_family_handle.
                  if child_family_handle \<noteq> family_handle then
                    seqs_opt [Some (Inr [PageBreak]),
                              dump_family depth c opts db child_family_handle (generation + 1)]
                  else Some (Inr []))
                (p_family_handle_list child))) refs) = None
      \<or> seqs_opt (map (\<lambda>child_ref.
          case get_person_from_handle db (cref child_ref) of
            Inl e \<Rightarrow> Some (Inl e)
          | Inr child \<Rightarrow>
              seqs_opt (map (\<lambda>child_family_handle.
                  if child_family_handle \<noteq> family_handle then
                    seqs_opt [Some (Inr [PageBreak]),
                              dump_family depth c opts db child_family_handle (generation + 1)]
                  else Some (Inr []))
                (p_family_handle_list child))) refs)
        = seqs_opt (map (\<lambda>child_ref.
          case get_person_from_handle db (cref child_ref) of
            Inl e \<Rightarrow> Some (Inl e)
          | Inr child \<Rightarrow>
              seqs_opt (map (\<lambda>child_family_handle.
                  if child_family_handle \<noteq> family_handle then
                    seqs_opt [Some (Inr [PageBreak]),
                              dump_family (Suc depth) c opts db child_family_handle (generation + 1)]
                  else Some (Inr []))
                (p_family_handle_list child))) refs)" for refs
    using child by (intro seqs_opt_map_mono) (auto split: sum.splits)
  show ?case
  proof (cases "get_family_from_handle db family_handle")
    case (Inl e)
    then show ?thesis
      by (simp del: seqs_opt.simps)
  next
    case (Inr family)
    show ?thesis
      unfolding dump_family.simps(2) [of "Suc depth" c opts db family_handle generation]
        dump_family.simps(2) [of depth c opts db family_handle generation] Inr sum.case
      by (intro seqs_opt_mono list_all2_Cons [THEN iffD2] conjI)
         (use children [of "f_child_ref_list family"] in \<open>auto simp del: seqs_opt.simps\<close>)
  qed
qed

subsection \<open>Titles and recursion\<close>

lemma format_generation:
  "py_format ''Family Group Report - Generation %d'' (Positional [FInt g])
   = Inr (''Family Group Report - Generation '' @ str_int g)"
  by (simp add: py_format_def convert_def)

lemma children_part_no_break:
  assumes "(if length refs > 0 then
          seqs [Inr [StartParagraph ''FGR-blank'',
                 EndParagraph,
                 StartTable ''FGR-Children'' ''FGR-ChildTable'',
                 StartRow,
                 StartCell ''FGR-ParentHead'' 4,
                 StartParagraph ''FGR-ParentName'',
                 WriteText heading None,
                 EndParagraph,
                 EndCell,
                 EndRow],
            dump_children c opts db 1 refs,
            Inr [EndTable]]
        else Inr []) = Inr children"
  shows "PageBreak \<notin> set children"
proof (cases "refs = []")
  case True
  with assms show ?thesis by simp
next
  case False
  with assms obtain rows where rows: "dump_children c opts db 1 refs = Inr rows"
    and ch: "children = [StartParagraph ''FGR-blank'',
                 EndParagraph,
                 StartTable ''FGR-Children'' ''FGR-ChildTable'',
                 StartRow,
                 StartCell ''FGR-ParentHead'' 4,
                 StartParagraph ''FGR-ParentName'',
                 WriteText heading None,
                 EndParagraph,
                 EndCell,
                 EndRow] @ rows @ [EndTable]"
    by (auto simp: seqs_eq_Inr_Cons seqs_Nil_eq simp del: seqs.simps)
  from block_only_D [OF block_dump_children rows] have "PageBreak \<notin> set rows"
    by (rule block_call_facts)
  with ch show ?thesis by simp
qed

lemma marriage_part_no_break:
  assumes "(if incParMar opts then
          seqs [dump_marriage c opts db (Some family),
                Inr [StartParagraph ''FGR-blank'', EndParagraph]]
        else Inr []) = Inr marriage"
  shows "PageBreak \<notin> set marriage"
proof (cases "incParMar opts")
  case True
  with assms obtain m where m: "dump_marriage c opts db (Some family) = Inr m"
    and mar: "marriage = m @ [StartParagraph ''FGR-blank'', EndParagraph]"
    by (auto simp: seqs_eq_Inr_Cons)
  from block_only_D [OF block_dump_marriage m] have "PageBreak \<notin> set m"
    by (rule block_call_facts)
  with mar show ?thesis by simp
next
  case False
  with assms show ?thesis by simp
qed

text \<open>
  Claim C3.  In a run of \<open>dump_family\<close> that returns, the first three calls are
  the title paragraph.  With recursion and generation numbers both on, the
  title is the message \<open>Family Group Report - Generation %d\<close> filled with the
  generation number, which without a translation reads
  \<open>Family Group Report - Generation N\<close>; otherwise it is the plain message.
  Without recursion there is no page break.  With recursion the output is the
  section of the family itself, which holds no page break, followed by one page
  break and one family section, rendered with the generation number plus one, for
  every family handle of every child, in order, that differs from the handle of
  the current family, and for no other handle.  A larger bound on the depth
  gives the same output.
\<close>

theorem generation_titles_and_descent:
  assumes ok: "dump_family (Suc depth) c opts db family_handle generation = Some (Inr out)"
  shows "(recursive opts \<and> generations opts \<longrightarrow>
        (\<exists>title.
            py_format (sgettext c ''Family Group Report - Generation %d'')
              (Positional [FInt generation]) = Inr title
          \<and> take 3 out = [StartParagraph ''FGR-Title'',
                          WriteText title (Some (IndexMark title INDEX_TYPE_TOC 1)),
                          EndParagraph]
          \<and> (sgettext c ''Family Group Report - Generation %d''
                = ''Family Group Report - Generation %d'' \<longrightarrow>
              title = ''Family Group Report - Generation '' @ str_int generation)))
    \<and> (\<not> (recursive opts \<and> generations opts) \<longrightarrow>
        take 3 out = [StartParagraph ''FGR-Title'',
                      WriteText (sgettext c ''Family Group Report'')
                        (Some (IndexMark (sgettext c ''Family Group Report'') INDEX_TYPE_TOC 1)),
                      EndParagraph])
    \<and> (\<not> recursive opts \<longrightarrow> PageBreak \<notin> set out)
    \<and> (recursive opts \<longrightarrow>
        (\<exists>family children section subs.
            db_families db family_handle = Some family
          \<and> map (\<lambda>child_ref. db_people db (cref child_ref)) (f_child_ref_list family)
              = map Some children
          \<and> list_all2 (\<lambda>h s. dump_family depth c opts db h (generation + 1) = Some (Inr s))
              (filter (\<lambda>h. h \<noteq> family_handle) (concat (map p_family_handle_list children)))
              subs
          \<and> PageBreak \<notin> set section
          \<and> out = section @ concat (map (\<lambda>s. PageBreak # s) subs)))
    \<and> dump_family (Suc (Suc depth)) c opts db family_handle generation = Some (Inr out)"
proof -
  from dump_family_shape [OF ok]
  obtain title family husband marriage wife children subs where
    title: "(if recursive opts \<and> generations opts
       then py_format (sgettext c ''Family Group Report - Generation %d'')
              (Positional [FInt generation])
       else Inr (sgettext c ''Family Group Report'')) = Inr title"
    and fam: "db_families db family_handle = Some family"
    and husband: "dump_parent c opts db (sgettext c ''Husband'') (f_father_handle family) = Inr husband"
    and marriage: "(if incParMar opts then
          seqs [dump_marriage c opts db (Some family),
                Inr [StartParagraph ''FGR-blank'', EndParagraph]]
        else Inr []) = Inr marriage"
    and wife: "dump_parent c opts db (sgettext c ''Wife'') (f_mother_handle family) = Inr wife"
    and children: "(if length (f_child_ref_list family) > 0 then
          seqs [
            Inr [StartParagraph ''FGR-blank'',
                 EndParagraph,
                 StartTable ''FGR-Children'' ''FGR-ChildTable'',
                 StartRow,
                 StartCell ''FGR-ParentHead'' 4,
                 StartParagraph ''FGR-ParentName'',
                 WriteText (sgettext c ''Children'') None,
                 EndParagraph,
                 EndCell,
                 EndRow],
            dump_children c opts db 1 (f_child_ref_list family),
            Inr [EndTable]]
        else Inr []) = Inr children"
    and subs: "(if recursive opts then
          seqs_opt (map (\<lambda>child_ref.
              case get_person_from_handle db (cref child_ref) of
                Inl e \<Rightarrow> Some (Inl e)
              | Inr child \<Rightarrow>
                  seqs_opt (map (\<lambda>child_family_handle.
                      if child_family_handle \<noteq> family_handle then
                        seqs_opt [
                          Some (Inr [PageBreak]),
                          dump_family depth c opts db child_family_handle (generation + 1)]
                      else Some (Inr []))
                    (p_family_handle_list child)))
            (f_child_ref_list family))
        else Some (Inr [])) = Some (Inr subs)"
    and out: "out = [StartParagraph ''FGR-Title'',
             WriteText title (Some (IndexMark title INDEX_TYPE_TOC 1)),
             EndParagraph]
            @ husband @ [StartParagraph ''FGR-blank'', EndParagraph]
            @ marriage @ wife @ children @ subs"
    by blast
  define part where "part = [StartParagraph ''FGR-Title'',
             WriteText title (Some (IndexMark title INDEX_TYPE_TOC 1)),
             EndParagraph]
            @ husband @ [StartParagraph ''FGR-blank'', EndParagraph]
            @ marriage @ wife @ children"
  from out have out': "out = part @ subs"
    by (simp add: part_def)
  from out have head: "take 3 out = [StartParagraph ''FGR-Title'',
             WriteText title (Some (IndexMark title INDEX_TYPE_TOC 1)),
             EndParagraph]"
    by simp
  from block_only_D [OF block_dump_parent husband] have h: "PageBreak \<notin> set husband"
    by (rule block_call_facts)
  from block_only_D [OF block_dump_parent wife] have w: "PageBreak \<notin> set wife"
    by (rule block_call_facts)
  from h w marriage_part_no_break [OF marriage] children_part_no_break [OF children]
  have clean: "PageBreak \<notin> set part"
    by (simp add: part_def)
  have 1: "recursive opts \<and> generations opts \<longrightarrow>
        (\<exists>title.
            py_format (sgettext c ''Family Group Report - Generation %d'')
              (Positional [FInt generation]) = Inr title
          \<and> take 3 out = [StartParagraph ''FGR-Title'',
                          WriteText title (Some (IndexMark title INDEX_TYPE_TOC 1)),
                          EndParagraph]
          \<and> (sgettext c ''Family Group Report - Generation %d''
                = ''Family Group Report - Generation %d'' \<longrightarrow>
              title = ''Family Group Report - Generation '' @ str_int generation))"
  proof
    assume both: "recursive opts \<and> generations opts"
    with title have t: "py_format (sgettext c ''Family Group Report - Generation %d'')
              (Positional [FInt generation]) = Inr title"
      by simp
    then have "sgettext c ''Family Group Report - Generation %d''
                = ''Family Group Report - Generation %d'' \<longrightarrow>
              title = ''Family Group Report - Generation '' @ str_int generation"
      by (auto simp: format_generation)
    with t head show "\<exists>title.
            py_format (sgettext c ''Family Group Report - Generation %d'')
              (Positional [FInt generation]) = Inr title
          \<and> take 3 out = [StartParagraph ''FGR-Title'',
                          WriteText title (Some (IndexMark title INDEX_TYPE_TOC 1)),
                          EndParagraph]
          \<and> (sgettext c ''Family Group Report - Generation %d''
                = ''Family Group Report - Generation %d'' \<longrightarrow>
              title = ''Family Group Report - Generation '' @ str_int generation)"
      by blast
  qed
  have 2: "\<not> (recursive opts \<and> generations opts) \<longrightarrow>
        take 3 out = [StartParagraph ''FGR-Title'',
                      WriteText (sgettext c ''Family Group Report'')
                        (Some (IndexMark (sgettext c ''Family Group Report'') INDEX_TYPE_TOC 1)),
                      EndParagraph]"
  proof
    assume "\<not> (recursive opts \<and> generations opts)"
    with title have "title = sgettext c ''Family Group Report''"
      by auto
    with head show "take 3 out = [StartParagraph ''FGR-Title'',
                      WriteText (sgettext c ''Family Group Report'')
                        (Some (IndexMark (sgettext c ''Family Group Report'') INDEX_TYPE_TOC 1)),
                      EndParagraph]"
      by simp
  qed
  have 3: "\<not> recursive opts \<longrightarrow> PageBreak \<notin> set out"
  proof
    assume "\<not> recursive opts"
    with subs have "subs = []"
      by simp
    with out' clean show "PageBreak \<notin> set out"
      by simp
  qed
  have 4: "recursive opts \<longrightarrow>
        (\<exists>family children section subs.
            db_families db family_handle = Some family
          \<and> map (\<lambda>child_ref. db_people db (cref child_ref)) (f_child_ref_list family)
              = map Some children
          \<and> list_all2 (\<lambda>h s. dump_family depth c opts db h (generation + 1) = Some (Inr s))
              (filter (\<lambda>h. h \<noteq> family_handle) (concat (map p_family_handle_list children)))
              subs
          \<and> PageBreak \<notin> set section
          \<and> out = section @ concat (map (\<lambda>s. PageBreak # s) subs))"
  proof
    assume "recursive opts"
    with subs have "seqs_opt (map (\<lambda>child_ref.
              case get_person_from_handle db (cref child_ref) of
                Inl e \<Rightarrow> Some (Inl e)
              | Inr child \<Rightarrow>
                  seqs_opt (map (\<lambda>child_family_handle.
                      if child_family_handle \<noteq> family_handle then
                        seqs_opt [
                          Some (Inr [PageBreak]),
                          dump_family depth c opts db child_family_handle (generation + 1)]
                      else Some (Inr []))
                    (p_family_handle_list child)))
            (f_child_ref_list family)) = Some (Inr subs)"
      by simp
    from descend_children [OF this] obtain people ss where
      "map (\<lambda>child_ref. db_people db (cref child_ref)) (f_child_ref_list family) = map Some people"
      and "list_all2 (\<lambda>h s. dump_family depth c opts db h (generation + 1) = Some (Inr s))
              (filter (\<lambda>h. h \<noteq> family_handle) (concat (map p_family_handle_list people))) ss"
      and "subs = concat (map (\<lambda>s. PageBreak # s) ss)"
      by blast
    with fam clean out' show "\<exists>family children section subs.
            db_families db family_handle = Some family
          \<and> map (\<lambda>child_ref. db_people db (cref child_ref)) (f_child_ref_list family)
              = map Some children
          \<and> list_all2 (\<lambda>h s. dump_family depth c opts db h (generation + 1) = Some (Inr s))
              (filter (\<lambda>h. h \<noteq> family_handle) (concat (map p_family_handle_list children)))
              subs
          \<and> PageBreak \<notin> set section
          \<and> out = section @ concat (map (\<lambda>s. PageBreak # s) subs)"
      by blast
  qed
  from dump_family_deeper [of "Suc depth" c opts db family_handle generation] ok
  have 5: "dump_family (Suc (Suc depth)) c opts db family_handle generation = Some (Inr out)"
    by (auto simp del: dump_family.simps)
  from 1 2 3 4 5 show ?thesis
    by blast
qed


theorem generation_titles_and_descent_witness:
  "recursive (flags\<lparr>recursive := True\<rparr>)
   \<and> generations (flags\<lparr>recursive := True\<rparr>)
   \<and> sgettext plain ''Family Group Report - Generation %d''
       = ''Family Group Report - Generation %d''
   \<and> (\<exists>out. dump_family (Suc (Suc 0)) plain (flags\<lparr>recursive := True\<rparr>) sample_db ''F1'' 1
          = Some (Inr out)
        \<and> take 3 out =
            [StartParagraph ''FGR-Title'',
             WriteText ''Family Group Report - Generation 1''
               (Some (IndexMark ''Family Group Report - Generation 1'' INDEX_TYPE_TOC 1)),
             EndParagraph]
        \<and> (\<exists>part subs. out = part @ concat (map (\<lambda>s. PageBreak # s) subs)
             \<and> PageBreak \<notin> set part
             \<and> list_all2 (\<lambda>h s. dump_family (Suc 0) plain (flags\<lparr>recursive := True\<rparr>)
                   sample_db h 2 = Some (Inr s)) [''F2'', ''F3'', ''F4''] subs))
   \<and> (\<exists>out. dump_family (Suc 0) plain (flags\<lparr>recursive := True\<rparr>) sample_db ''F2'' 2
          = Some (Inr out)
        \<and> take 3 out =
            [StartParagraph ''FGR-Title'',
             WriteText ''Family Group Report - Generation 2''
               (Some (IndexMark ''Family Group Report - Generation 2'' INDEX_TYPE_TOC 1)),
             EndParagraph])"
proof -
  have r: "recursive (flags\<lparr>recursive := True\<rparr>)"
    by simp
  have g: "generations (flags\<lparr>recursive := True\<rparr>)"
    by (simp add: flags_def)
  have tr: "sgettext plain ''Family Group Report - Generation %d''
       = ''Family Group Report - Generation %d''"
    by (simp add: plain_def untranslated_def)
  have one: "str_int 1 = ''1''" and two: "str_int 2 = ''2''"
    by (simp_all add: str_int_def digits.simps digit_char_def)
  have "(case dump_family (Suc (Suc 0)) plain (flags\<lparr>recursive := True\<rparr>) sample_db ''F1'' 1 of
           Some (Inr out) \<Rightarrow> True | _ \<Rightarrow> False)"
    by code_simp
  then obtain out1 where ok1:
    "dump_family (Suc (Suc 0)) plain (flags\<lparr>recursive := True\<rparr>) sample_db ''F1'' 1
       = Some (Inr out1)"
    by (auto split: option.splits sum.splits)
  have "(case dump_family (Suc 0) plain (flags\<lparr>recursive := True\<rparr>) sample_db ''F2'' 2 of
           Some (Inr out) \<Rightarrow> True | _ \<Rightarrow> False)"
    by code_simp
  then obtain out2 where ok2:
    "dump_family (Suc 0) plain (flags\<lparr>recursive := True\<rparr>) sample_db ''F2'' 2 = Some (Inr out2)"
    by (auto split: option.splits sum.splits)
  have fam: "db_families sample_db ''F1'' = Some F1"
    by (simp add: sample_db_def families_of_def)
  have kids: "map (\<lambda>child_ref. db_people sample_db (cref child_ref)) (f_child_ref_list F1)
      = map Some [named ''Carl'' MALE [''F2''], named ''Dora'' FEMALE [''F3'', ''F4''],
                  named ''Evan'' UNKNOWN []]"
    by (simp add: F1_def fam_def sample_db_def people_of_def)
  have targets: "filter (\<lambda>h. h \<noteq> ''F1'')
      (concat (map p_family_handle_list
         [named ''Carl'' MALE [''F2''], named ''Dora'' FEMALE [''F3'', ''F4''],
          named ''Evan'' UNKNOWN []])) = [''F2'', ''F3'', ''F4'']"
    by (simp add: named_def)
  note t1 = generation_titles_and_descent [OF ok1, THEN conjunct1]
    generation_titles_and_descent [OF ok1, THEN conjunct2, THEN conjunct2, THEN conjunct2,
      THEN conjunct1]
  note t2 = generation_titles_and_descent [OF ok2, THEN conjunct1]
  from t1 r g tr one have a: "take 3 out1 =
            [StartParagraph ''FGR-Title'',
             WriteText ''Family Group Report - Generation 1''
               (Some (IndexMark ''Family Group Report - Generation 1'' INDEX_TYPE_TOC 1)),
             EndParagraph]"
    by auto
  from t2 r g tr two have b: "take 3 out2 =
            [StartParagraph ''FGR-Title'',
             WriteText ''Family Group Report - Generation 2''
               (Some (IndexMark ''Family Group Report - Generation 2'' INDEX_TYPE_TOC 1)),
             EndParagraph]"
    by auto
  from t1 r obtain family children part subs where
    f: "db_families sample_db ''F1'' = Some family"
    and c: "map (\<lambda>child_ref. db_people sample_db (cref child_ref)) (f_child_ref_list family)
              = map Some children"
    and l: "list_all2 (\<lambda>h s. dump_family (Suc 0) plain (flags\<lparr>recursive := True\<rparr>)
                sample_db h (1 + 1) = Some (Inr s))
              (filter (\<lambda>h. h \<noteq> ''F1'') (concat (map p_family_handle_list children))) subs"
    and p: "PageBreak \<notin> set part"
    and o: "out1 = part @ concat (map (\<lambda>s. PageBreak # s) subs)"
    by blast
  from f fam have "family = F1"
    by simp
  with c kids have "map Some children
      = map Some [named ''Carl'' MALE [''F2''], named ''Dora'' FEMALE [''F3'', ''F4''],
                  named ''Evan'' UNKNOWN []]"
    by (simp del: list.map)
  then have "children = [named ''Carl'' MALE [''F2''], named ''Dora'' FEMALE [''F3'', ''F4''],
                  named ''Evan'' UNKNOWN []]"
    by (rule map_injective) simp
  with l targets have "list_all2 (\<lambda>h s. dump_family (Suc 0) plain (flags\<lparr>recursive := True\<rparr>)
                   sample_db h 2 = Some (Inr s)) [''F2'', ''F3'', ''F4''] subs"
    by simp
  with o p have d: "\<exists>part subs. out1 = part @ concat (map (\<lambda>s. PageBreak # s) subs)
             \<and> PageBreak \<notin> set part
             \<and> list_all2 (\<lambda>h s. dump_family (Suc 0) plain (flags\<lparr>recursive := True\<rparr>)
                   sample_db h 2 = Some (Inr s)) [''F2'', ''F3'', ''F4''] subs"
    by blast
  from r g tr ok1 a d ok2 b show ?thesis
    by blast
qed

subsection \<open>The report driver\<close>

lemma doc_effects_eq:
  "doc_effects r = Some (Inr a) \<longleftrightarrow> (\<exists>out. r = Some (Inr out) \<and> a = map Doc out)"
  by (cases r) (auto simp: doc_effects_def map_sum_def split: sum.splits)

lemma report_loop:
  "seqs_opt (map (\<lambda>family_handle.
       seqs_opt [doc_effects (sub family_handle), Some (Inr [Doc PageBreak]), Some (Inr [Step])])
     hs) = Some (Inr trace) \<Longrightarrow>
   \<exists>outs. list_all2 (\<lambda>h out. sub h = Some (Inr out)) hs outs
     \<and> trace = concat (map (\<lambda>out. map Doc out @ [Doc PageBreak, Step]) outs)"
proof (induction hs arbitrary: trace)
  case Nil
  then show ?case by simp
next
  case (Cons h hs)
  from Cons.prems obtain out b where
    out: "sub h = Some (Inr out)"
    and b: "seqs_opt (map (\<lambda>family_handle.
       seqs_opt [doc_effects (sub family_handle), Some (Inr [Doc PageBreak]), Some (Inr [Step])])
     hs) = Some (Inr b)"
    and trace: "trace = (map Doc out @ [Doc PageBreak, Step]) @ b"
    by (auto simp: seqs_opt_Cons_eq seqs_opt_Nil_eq doc_effects_eq simp del: seqs_opt.simps)
  from Cons.IH [OF b] obtain outs where
    "list_all2 (\<lambda>h out. sub h = Some (Inr out)) hs outs"
    and "b = concat (map (\<lambda>out. map Doc out @ [Doc PageBreak, Step]) outs)"
    by blast
  with out trace
  have "list_all2 (\<lambda>h out. sub h = Some (Inr out)) (h # hs) (out # outs)
     \<and> trace = concat (map (\<lambda>out. map Doc out @ [Doc PageBreak, Step]) (out # outs))"
    by simp
  then show ?case by blast
qed

lemma count_steps:
  "count_list (concat (map (\<lambda>out. map Doc out @ [Doc PageBreak, Step]) outs)) Step = length outs"
proof (induction outs)
  case Nil
  show ?case by simp
next
  case (Cons out outs)
  have "count_list (map Doc out) Step = 0"
    by (induction out) simp_all
  with Cons show ?case by simp
qed

text \<open>
  Claim C4.  Let \<open>fam_list\<close> be the sorted family handles of the database, passed
  through the filter when there is one.  When the list is not empty, a run of
  \<open>write_report\<close> that returns has rendered every handle of the list, in order,
  with \<open>dump_family\<close> at generation 1, each followed by a page break and one
  tick of the progress meter, so that there are as many ticks as families.
  When the list is empty the driver returns the title paragraph alone.
  Without recursion the driver returns for every positive bound on the depth.
\<close>

theorem report_driver:
  assumes "fam_list =
    (case filter_opt of None \<Rightarrow> db_family_handles db | Some apply \<Rightarrow> apply db (db_family_handles db))"
  shows "(fam_list \<noteq> [] \<longrightarrow>
      (\<forall>trace. write_report depth c opts filter_opt db = Some (Inr trace) \<longrightarrow>
        (\<exists>outs.
            list_all2 (\<lambda>h out. dump_family depth c opts db h 1 = Some (Inr out)) fam_list outs
          \<and> trace = concat (map (\<lambda>out. map Doc out @ [Doc PageBreak, Step]) outs)
          \<and> count_list trace Step = length fam_list)))
    \<and> (fam_list = [] \<longrightarrow>
        write_report depth c opts filter_opt db =
          Some (Inr [Doc (StartParagraph ''FGR-Title''),
                     Doc (WriteText (sgettext c ''Family Group Report'') None),
                     Doc EndParagraph]))
    \<and> (\<not> recursive opts \<longrightarrow> write_report (Suc depth) c opts filter_opt db \<noteq> None)"
proof (intro conjI impI allI)
  fix trace
  assume ne: "fam_list \<noteq> []"
    and ok: "write_report depth c opts filter_opt db = Some (Inr trace)"
  from ok ne assms have "seqs_opt (map (\<lambda>family_handle.
       seqs_opt [doc_effects (dump_family depth c opts db family_handle 1),
                 Some (Inr [Doc PageBreak]), Some (Inr [Step])])
     fam_list) = Some (Inr trace)"
    by (simp add: write_report_def Let_def del: seqs_opt.simps)
  from report_loop [OF this] obtain outs where
    l: "list_all2 (\<lambda>h out. dump_family depth c opts db h 1 = Some (Inr out)) fam_list outs"
    and t: "trace = concat (map (\<lambda>out. map Doc out @ [Doc PageBreak, Step]) outs)"
    by blast
  from l have "length outs = length fam_list"
    by (simp add: list_all2_lengthD)
  with t have "count_list trace Step = length fam_list"
    by (simp add: count_steps)
  with l t show "\<exists>outs.
            list_all2 (\<lambda>h out. dump_family depth c opts db h 1 = Some (Inr out)) fam_list outs
          \<and> trace = concat (map (\<lambda>out. map Doc out @ [Doc PageBreak, Step]) outs)
          \<and> count_list trace Step = length fam_list"
    by blast
next
  assume "fam_list = []"
  with assms show "write_report depth c opts filter_opt db =
          Some (Inr [Doc (StartParagraph ''FGR-Title''),
                     Doc (WriteText (sgettext c ''Family Group Report'') None),
                     Doc EndParagraph])"
    by (simp add: write_report_def Let_def)
next
  assume "\<not> recursive opts"
  then show "write_report (Suc depth) c opts filter_opt db \<noteq> None"
    by (rule write_report_returns)
qed

theorem report_driver_witness:
  "write_report (Suc 0) plain flags (Some (\<lambda>db hs. [])) sample_db =
      Some (Inr [Doc (StartParagraph ''FGR-Title''),
                 Doc (WriteText ''Family Group Report'' None),
                 Doc EndParagraph])
   \<and> db_family_handles sample_db = [''F1'', ''F5'']
   \<and> (\<exists>trace out1 out5.
        write_report (Suc 0) plain flags None sample_db = Some (Inr trace)
      \<and> dump_family (Suc 0) plain flags sample_db ''F1'' 1 = Some (Inr out1)
      \<and> dump_family (Suc 0) plain flags sample_db ''F5'' 1 = Some (Inr out5)
      \<and> trace = map Doc out1 @ [Doc PageBreak, Step] @ map Doc out5 @ [Doc PageBreak, Step]
      \<and> count_list trace Step = 2)"
proof -
  have hs: "db_family_handles sample_db = [''F1'', ''F5'']"
    by (simp add: sample_db_def)
  have tr: "sgettext plain ''Family Group Report'' = ''Family Group Report''"
    by (simp add: plain_def untranslated_def)
  have e: "[] = (case Some (\<lambda>db hs. []) of
      None \<Rightarrow> db_family_handles sample_db
    | Some apply \<Rightarrow> apply sample_db (db_family_handles sample_db))"
    by simp
  have n: "[''F1'', ''F5''] = (case None of
      None \<Rightarrow> db_family_handles sample_db
    | Some apply \<Rightarrow> apply sample_db (db_family_handles sample_db))"
    by (simp add: hs)
  from report_driver [OF e, of "Suc 0" plain flags] tr
  have a: "write_report (Suc 0) plain flags (Some (\<lambda>db hs. [])) sample_db =
      Some (Inr [Doc (StartParagraph ''FGR-Title''),
                 Doc (WriteText ''Family Group Report'' None),
                 Doc EndParagraph])"
    by simp
  have "(case write_report (Suc 0) plain flags None sample_db of
           Some (Inr out) \<Rightarrow> True | _ \<Rightarrow> False)"
    by code_simp
  then obtain trace where ok: "write_report (Suc 0) plain flags None sample_db = Some (Inr trace)"
    by (auto split: option.splits sum.splits)
  from report_driver [OF n, of "Suc 0" plain flags] ok
  obtain outs where
    l: "list_all2 (\<lambda>h out. dump_family (Suc 0) plain flags sample_db h 1 = Some (Inr out))
          [''F1'', ''F5''] outs"
    and t: "trace = concat (map (\<lambda>out. map Doc out @ [Doc PageBreak, Step]) outs)"
    and c: "count_list trace Step = length [''F1'', ''F5'']"
    by auto
  from l obtain out1 out5 where "outs = [out1, out5]"
    and "dump_family (Suc 0) plain flags sample_db ''F1'' 1 = Some (Inr out1)"
    and "dump_family (Suc 0) plain flags sample_db ''F5'' 1 = Some (Inr out5)"
    by (auto simp: list_all2_Cons1)
  with t c ok have "\<exists>trace out1 out5.
        write_report (Suc 0) plain flags None sample_db = Some (Inr trace)
      \<and> dump_family (Suc 0) plain flags sample_db ''F1'' 1 = Some (Inr out1)
      \<and> dump_family (Suc 0) plain flags sample_db ''F5'' 1 = Some (Inr out5)
      \<and> trace = map Doc out1 @ [Doc PageBreak, Step] @ map Doc out5 @ [Doc PageBreak, Step]
      \<and> count_list trace Step = 2"
    by simp
  with a hs show ?thesis
    by blast
qed

end
